theory Spec2Isabelle
  imports Main "HOL-Library.List_Lexorder" "HOL-Library.Char_ord"
begin

section \<open>Lock table (orchestrator.js, commandLocks)\<close>

text \<open>
  \<^verbatim>\<open>commandLocks\<close> is a \<^verbatim>\<open>Map<guildId, { botId, timestamp }>\<close>. Guild and bot
  identifiers are strings; timestamps are the millisecond readings of \<^verbatim>\<open>Date.now()\<close>,
  which every function below receives as an explicit argument \<open>now\<close>.
\<close>

record lock =
  botId :: string
  timestamp :: int

type_synonym lock_table = "string \<rightharpoonup> lock"

definition LOCK_TIMEOUT :: int where
  "LOCK_TIMEOUT = 10000"

text \<open>
  \<^verbatim>\<open>acquireCommandLock(guildId, botId)\<close>: the result is the returned boolean together
  with the table after the call.
\<close>

definition acquireCommandLock :: "lock_table \<Rightarrow> string \<Rightarrow> string \<Rightarrow> int \<Rightarrow> bool \<times> lock_table" where
  "acquireCommandLock locks guildId b now =
     (case locks guildId of
        Some existing \<Rightarrow>
          if now - timestamp existing > LOCK_TIMEOUT then
            (True, (locks(guildId := None))(guildId \<mapsto> \<lparr>botId = b, timestamp = now\<rparr>))
          else if botId existing \<noteq> b then (False, locks)
          else (True, locks)
      | None \<Rightarrow> (True, locks(guildId \<mapsto> \<lparr>botId = b, timestamp = now\<rparr>)))"

definition releaseCommandLock :: "lock_table \<Rightarrow> string \<Rightarrow> string \<Rightarrow> lock_table" where
  "releaseCommandLock locks guildId b =
     (case locks guildId of
        Some existing \<Rightarrow> if botId existing = b then locks(guildId := None) else locks
      | None \<Rightarrow> locks)"

definition hasCommandLock :: "lock_table \<Rightarrow> string \<Rightarrow> string \<Rightarrow> int \<Rightarrow> bool \<times> lock_table" where
  "hasCommandLock locks guildId b now =
     (case locks guildId of
        None \<Rightarrow> (False, locks)
      | Some existing \<Rightarrow>
          if now - timestamp existing > LOCK_TIMEOUT then (False, locks(guildId := None))
          else (botId existing = b, locks))"

text \<open>
  A run of acquire calls on one key, one after the other: each call is a peer identifier
  with the clock reading of that call. The booleans are returned in call order.
\<close>

fun acquire_calls :: "lock_table \<Rightarrow> string \<Rightarrow> (string \<times> int) list \<Rightarrow> bool list \<times> lock_table" where
  "acquire_calls locks guildId [] = ([], locks)"
| "acquire_calls locks guildId ((b, now) # cs) =
     (let (r, locks') = acquireCommandLock locks guildId b now;
          (rs, locks'') = acquire_calls locks' guildId cs
      in (r # rs, locks''))"

text \<open>
  The calls stay inside the timeout window: after the first call the key has an entry
  (the old one if it was still fresh, a new one otherwise), and no later call is made
  after that entry has expired.
\<close>

definition window_start :: "lock_table \<Rightarrow> string \<Rightarrow> int \<Rightarrow> int" where
  "window_start locks guildId now =
     (case locks guildId of
        None \<Rightarrow> now
      | Some existing \<Rightarrow> if now - timestamp existing > LOCK_TIMEOUT then now else timestamp existing)"

fun in_window :: "lock_table \<Rightarrow> string \<Rightarrow> (string \<times> int) list \<Rightarrow> bool" where
  "in_window locks guildId [] = True"
| "in_window locks guildId ((b, now) # cs) =
     list_all (\<lambda>(b', now'). now' - window_start locks guildId now \<le> LOCK_TIMEOUT) cs"

text \<open>The key is held, at the time of the first call, by a peer that is not among the callers.\<close>

definition held_by_outsider :: "lock_table \<Rightarrow> string \<Rightarrow> (string \<times> int) list \<Rightarrow> bool" where
  "held_by_outsider locks guildId cs =
     (case (locks guildId, cs) of
        (Some existing, (b, now) # rest) \<Rightarrow>
           \<not> now - timestamp existing > LOCK_TIMEOUT \<and> botId existing \<notin> set (map fst cs)
      | _ \<Rightarrow> False)"

datatype lock_op = Acquire string string int | Release string string | HasLock string string int

fun lock_step :: "lock_table \<Rightarrow> lock_op \<Rightarrow> lock_table" where
  "lock_step locks (Acquire g b now) = snd (acquireCommandLock locks g b now)"
| "lock_step locks (Release g b) = releaseCommandLock locks g b"
| "lock_step locks (HasLock g b now) = snd (hasCommandLock locks g b now)"

definition lock_run :: "lock_table \<Rightarrow> lock_op list \<Rightarrow> lock_table" where
  "lock_run locks ops = foldl lock_step locks ops"

text \<open>
  An operation leaves the entry \<open>e\<close> of key \<open>k\<close> undisturbed: it is on another key, or it
  is an acquire or hasLock made before \<open>e\<close> has expired, or a release by a peer that is
  not the owner of \<open>e\<close>.
\<close>

fun undisturbed :: "string \<Rightarrow> lock \<Rightarrow> lock_op \<Rightarrow> bool" where
  "undisturbed k e (Acquire g b now) = (g = k \<longrightarrow> now - timestamp e \<le> LOCK_TIMEOUT)"
| "undisturbed k e (Release g b) = (g = k \<longrightarrow> b \<noteq> botId e)"
| "undisturbed k e (HasLock g b now) = (g = k \<longrightarrow> now - timestamp e \<le> LOCK_TIMEOUT)"

text \<open>The entry of the key, if there is one, names the peer as its owner.\<close>

definition owns :: "lock_table \<Rightarrow> string \<Rightarrow> string \<Rightarrow> bool" where
  "owns locks guildId b = (case locks guildId of Some existing \<Rightarrow> botId existing = b | None \<Rightarrow> False)"

section \<open>Bot cluster (orchestrator.js, botCluster)\<close>

text \<open>
  The fields of a player and of a bot client that the load balancer and the router read.
  \<open>voiceChannelId\<close> is \<open>None\<close> for null or undefined; the cached \<open>playerCount\<close> is
  \<open>None\<close> until a heartbeat has written it; \<open>lavalink\<close> is \<open>None\<close> when the client has
  no Lavalink manager, and otherwise carries the \<^verbatim>\<open>players\<close> map as an association list
  from guild identifier to player. \<open>isReady\<close> is the result of \<^verbatim>\<open>client.isReady()\<close>, and
  \<open>clientBotId\<close> is \<^verbatim>\<open>client.botId\<close>.
\<close>

record player =
  voiceChannelId :: "string option"

record BotClient =
  clientBotId :: string
  isMainBot :: bool
  isReady :: bool
  playerCount :: "nat option"
  lavalink :: "(string \<times> player) list option"
  clientId :: string

text \<open>
  \<^verbatim>\<open>botCluster\<close> is a \<^verbatim>\<open>Collection<botId, BotClient>\<close>; iteration follows insertion
  order, so it is kept as an association list, and \<^verbatim>\<open>botCluster.get\<close> is \<open>map_of\<close>.
\<close>

type_synonym botCluster = "(string \<times> BotClient) list"

text \<open>JavaScript truthiness of a string-or-null value: null and the empty string are falsy.\<close>

definition truthy :: "string option \<Rightarrow> bool" where
  "truthy v = (case v of None \<Rightarrow> False | Some s \<Rightarrow> s \<noteq> [])"

text \<open>\<^verbatim>\<open>client.lavalink?.players?.get(guildId)\<close>\<close>

definition getPlayer :: "BotClient \<Rightarrow> string \<Rightarrow> player option" where
  "getPlayer client guildId = (case lavalink client of None \<Rightarrow> None | Some ps \<Rightarrow> map_of ps guildId)"

text \<open>\<^verbatim>\<open>client.lavalink?.players?.size || 0\<close>: the number of keys of the players map.\<close>

definition playersSize :: "BotClient \<Rightarrow> nat" where
  "playersSize client = (case lavalink client of None \<Rightarrow> 0 | Some ps \<Rightarrow> length (remdups (map fst ps)))"

text \<open>
  \<^verbatim>\<open>Array.prototype.sort(compareFn)\<close> is a stable sort; with a comparator that is a
  consistent ordering its result is that of stable insertion sort, where an element goes
  before the first later element it does not compare greater than.
\<close>

fun insertBy :: "('a \<Rightarrow> 'a \<Rightarrow> int) \<Rightarrow> 'a \<Rightarrow> 'a list \<Rightarrow> 'a list" where
  "insertBy cmp x [] = [x]"
| "insertBy cmp x (y # ys) = (if cmp x y \<le> 0 then x # y # ys else y # insertBy cmp x ys)"

definition sortBy :: "('a \<Rightarrow> 'a \<Rightarrow> int) \<Rightarrow> 'a list \<Rightarrow> 'a list" where
  "sortBy cmp xs = foldr (insertBy cmp) xs []"

section \<open>Load balancer (managers/LoadBalancer.js)\<close>

text \<open>
  \<^verbatim>\<open>maxPlayersPerBot\<close> is whatever number the configuration supplies
  (\<^verbatim>\<open>parseInt(process.env.MAX_PLAYERS_PER_BOT || "100", 10)\<close>), so it may be negative.
\<close>

record options =
  strategy :: string
  maxPlayersPerBot :: int

text \<open>
  The constructor's defaults: \<^verbatim>\<open>options.strategy || 'priority'\<close> and
  \<^verbatim>\<open>options.maxPlayersPerBot || 100\<close>. A missing value (\<open>None\<close>, also standing for
  NaN), the empty string and 0 are falsy; every other number, negative ones included, is
  kept.
\<close>

definition newOptions :: "string option \<Rightarrow> int option \<Rightarrow> options" where
  "newOptions strat maxPlayers =
     \<lparr>strategy = (case strat of None \<Rightarrow> ''priority'' | Some s \<Rightarrow> if s = [] then ''priority'' else s),
      maxPlayersPerBot = (case maxPlayers of None \<Rightarrow> 100 | Some n \<Rightarrow> if n = 0 then 100 else n)\<rparr>"

datatype status = Available | InUse | Offline | Starting | Error

text \<open>
  \<^verbatim>\<open>_updateBotStatus(client)\<close>: caches the live player count on the client and computes
  the status handed to \<^verbatim>\<open>client.updateStatus\<close>.
\<close>

definition updateBotStatus :: "options \<Rightarrow> BotClient \<Rightarrow> BotClient \<times> status" where
  "updateBotStatus opts client =
     (let count = playersSize client;
          client' = client\<lparr>playerCount := Some count\<rparr>;
          st = (if \<not> isReady client then Offline
                else if int count \<ge> maxPlayersPerBot opts then InUse
                else if count > 0 then InUse
                else Available)
      in (client', st))"

text \<open>\<^verbatim>\<open>_heartbeat()\<close>: every client of the cluster is updated in turn.\<close>

definition heartbeat :: "options \<Rightarrow> botCluster \<Rightarrow> (string \<times> BotClient \<times> status) list" where
  "heartbeat opts cluster = map (\<lambda>(bid, client). (bid, updateBotStatus opts client)) cluster"

text \<open>\<^verbatim>\<open>(client.playerCount || 0)\<close>\<close>

definition cachedCount :: "BotClient \<Rightarrow> nat" where
  "cachedCount client = (case playerCount client of None \<Rightarrow> 0 | Some n \<Rightarrow> n)"

text \<open>The comparator of \<^verbatim>\<open>_selectByPriority\<close>: main bot first, then the cached player count.\<close>

definition compareBots :: "string \<times> BotClient \<Rightarrow> string \<times> BotClient \<Rightarrow> int" where
  "compareBots a b =
     (if isMainBot (snd a) \<and> \<not> isMainBot (snd b) then - 1
      else if \<not> isMainBot (snd a) \<and> isMainBot (snd b) then 1
      else int (cachedCount (snd a)) - int (cachedCount (snd b)))"

definition selectByPriority :: "options \<Rightarrow> botCluster \<Rightarrow> (string \<times> BotClient) option" where
  "selectByPriority opts cluster =
     (let sortedBots = sortBy compareBots (filter (\<lambda>(bid, client). isReady client) cluster)
      in case find (\<lambda>(bid, client). int (playersSize client) < maxPlayersPerBot opts) sortedBots of
           Some found \<Rightarrow> Some found
         | None \<Rightarrow> (case sortedBots of first # rest \<Rightarrow> Some first | [] \<Rightarrow> None))"

definition selectByRoundRobin :: "botCluster \<Rightarrow> (string \<times> BotClient) option" where
  "selectByRoundRobin cluster =
     (let availableBots =
            sortBy (\<lambda>a b. int (cachedCount (snd a)) - int (cachedCount (snd b)))
              (filter (\<lambda>(bid, client). isReady client) cluster)
      in case availableBots of [] \<Rightarrow> None | first # rest \<Rightarrow> Some first)"

definition selectBot :: "options \<Rightarrow> botCluster \<Rightarrow> (string \<times> BotClient) option" where
  "selectBot opts cluster =
     (if strategy opts = ''priority'' then selectByPriority opts cluster
      else if strategy opts = ''roundRobin'' then selectByRoundRobin cluster
      else selectByPriority opts cluster)"

section \<open>Assignment store (schemas/GuildAssignment.js)\<close>

datatype reason = Auto | Manual | Failover | Priority

text \<open>
  One document of the collection; its \<^verbatim>\<open>_id\<close> is the key under which the store holds
  it. Dates are millisecond clock readings. The bookkeeping fields the persistence layer
  maintains by itself (\<^verbatim>\<open>createdAt\<close>, \<^verbatim>\<open>updatedAt\<close>) are not part of the model.
\<close>

record GuildAssignment =
  assignedBotId :: string
  assignedClientId :: string
  assignmentVoiceChannelId :: "string option"
  textChannelId :: "string option"
  isActive :: bool
  assignedAt :: int
  lastActivity :: int
  assignmentReason :: reason
  previousBotId :: "string option"

type_synonym assignment_store = "string \<rightharpoonup> GuildAssignment"

definition getOrCreateAssignment ::
    "assignment_store \<Rightarrow> string \<Rightarrow> string \<Rightarrow> string \<Rightarrow> reason \<Rightarrow> int \<Rightarrow> GuildAssignment \<times> assignment_store" where
  "getOrCreateAssignment store guildId b cid why now =
     (case store guildId of
        Some assignment \<Rightarrow> (assignment, store)
      | None \<Rightarrow>
          (let assignment =
                 \<lparr>assignedBotId = b, assignedClientId = cid, assignmentVoiceChannelId = None,
                  textChannelId = None, isActive = False, assignedAt = now, lastActivity = now,
                  assignmentReason = why, previousBotId = None\<rparr>
           in (assignment, store(guildId \<mapsto> assignment))))"

text \<open>\<^verbatim>\<open>assignment.touch()\<close>\<close>

definition touch :: "GuildAssignment \<Rightarrow> int \<Rightarrow> GuildAssignment" where
  "touch assignment now = assignment\<lparr>lastActivity := now\<rparr>"

text \<open>
  \<^verbatim>\<open>releaseInactiveAssignments(inactiveThreshold = 300000)\<close>: an \<^verbatim>\<open>updateMany\<close> that sets
  \<^verbatim>\<open>isActive\<close> to false on the documents matching
  \<^verbatim>\<open>{ isActive: true, lastActivity: { $lt: now - inactiveThreshold } }\<close>.
\<close>

definition releaseInactiveAssignments :: "assignment_store \<Rightarrow> int option \<Rightarrow> int \<Rightarrow> assignment_store" where
  "releaseInactiveAssignments store inactiveThreshold now =
     (let threshold = (case inactiveThreshold of None \<Rightarrow> 300000 | Some t \<Rightarrow> t);
          inactiveTime = now - threshold
      in (\<lambda>guildId.
            case store guildId of
              None \<Rightarrow> None
            | Some assignment \<Rightarrow>
                if isActive assignment \<and> lastActivity assignment < inactiveTime
                then Some (assignment\<lparr>isActive := False\<rparr>)
                else Some assignment))"

section \<open>Assigning a bot to a guild (LoadBalancer.assignBot)\<close>

record assigned =
  assigned_botId :: string
  assigned_client :: BotClient
  assigned_assignment :: GuildAssignment

text \<open>
  The first part of \<^verbatim>\<open>assignBot\<close>: the existing assignment together with its client,
  when the assignment is active and the client is in the cluster and ready.
\<close>

definition existingOwner :: "botCluster \<Rightarrow> GuildAssignment option \<Rightarrow> (GuildAssignment \<times> BotClient) option" where
  "existingOwner cluster existingAssignment =
     (case existingAssignment of
        None \<Rightarrow> None
      | Some assignment \<Rightarrow>
          if isActive assignment then
            (case map_of cluster (assignedBotId assignment) of
               None \<Rightarrow> None
             | Some existingClient \<Rightarrow>
                 if isReady existingClient then Some (assignment, existingClient) else None)
          else None)"

text \<open>
  \<^verbatim>\<open>assignBot(guildId)\<close>, with the selection step \<^verbatim>\<open>this._selectBot()\<close> as the argument
  \<open>select\<close>. The result is the returned object (\<open>None\<close> for null) and the store after
  the call.
\<close>

definition assignBotWith ::
    "(options \<Rightarrow> botCluster \<Rightarrow> (string \<times> BotClient) option) \<Rightarrow> options \<Rightarrow> botCluster \<Rightarrow>
     assignment_store \<Rightarrow> string \<Rightarrow> int \<Rightarrow> assigned option \<times> assignment_store" where
  "assignBotWith select opts cluster store guildId now =
     (let existingAssignment = store guildId
      in case existingOwner cluster existingAssignment of
           Some (assignment, existingClient) \<Rightarrow>
             (let touched = touch assignment now
              in (Some \<lparr>assigned_botId = assignedBotId touched, assigned_client = existingClient,
                        assigned_assignment = touched\<rparr>,
                  store(guildId \<mapsto> touched)))
         | None \<Rightarrow>
             (case select opts cluster of
                None \<Rightarrow> (None, store)
              | Some (selectedBotId, selectedClient) \<Rightarrow>
                  (let (assignment, store') =
                         getOrCreateAssignment store guildId selectedBotId (clientId selectedClient)
                           (if existingAssignment \<noteq> None then Failover else Auto) now
                   in (Some \<lparr>assigned_botId = selectedBotId, assigned_client = selectedClient,
                             assigned_assignment = assignment\<rparr>,
                       store'))))"

definition assignBot ::
    "options \<Rightarrow> botCluster \<Rightarrow> assignment_store \<Rightarrow> string \<Rightarrow> int \<Rightarrow> assigned option \<times> assignment_store" where
  "assignBot = assignBotWith selectBot"

section \<open>Command routing (events/Client/InteractionCreate.js, shouldHandleCommand)\<close>

text \<open>
  \<^verbatim>\<open>global.orchestrator\<close>: the cluster and the lock table. The router receives it as an
  option, \<open>None\<close> standing for an undefined global.
\<close>

record orchestrator =
  bots :: botCluster
  commandLocks :: lock_table

text \<open>
  The clock readings of one evaluation: \<^verbatim>\<open>hasCommandLock\<close> reads the clock at \<open>tCheck\<close>,
  the acquisition that follows it at \<open>tProbe\<close>, and the acquisition made by the branch
  that decides at \<open>tAcquire\<close>.
\<close>

record clock =
  tCheck :: int
  tProbe :: int
  tAcquire :: int

text \<open>
  \<^verbatim>\<open>existingPlayer && existingPlayer.voiceChannelId\<close>: the voice channel of the bot's
  player in the guild, \<open>None\<close> when the bot has no player there or the player has no
  voice channel.
\<close>

definition existingChannel :: "BotClient \<Rightarrow> string \<Rightarrow> string option" where
  "existingChannel client guildId =
     (case getPlayer client guildId of
        None \<Rightarrow> None
      | Some existingPlayer \<Rightarrow>
          if truthy (voiceChannelId existingPlayer) then voiceChannelId existingPlayer else None)"

text \<open>
  \<^verbatim>\<open>if (orchestrator?.acquireCommandLock) orchestrator.acquireCommandLock(guildId, botId)\<close>,
  the returned boolean being dropped.
\<close>

definition acquireIfPresent :: "orchestrator option \<Rightarrow> string \<Rightarrow> string \<Rightarrow> int \<Rightarrow> orchestrator option" where
  "acquireIfPresent orch guildId b now =
     (case orch of
        None \<Rightarrow> None
      | Some orc \<Rightarrow> Some (orc\<lparr>commandLocks := snd (acquireCommandLock (commandLocks orc) guildId b now)\<rparr>))"

text \<open>Lines 35-64: the main bot.\<close>

definition mainBotLogic ::
    "orchestrator option \<Rightarrow> assignment_store \<Rightarrow> BotClient \<Rightarrow> string \<Rightarrow> bool \<Rightarrow> string option \<Rightarrow> clock
     \<Rightarrow> bool \<times> orchestrator option" where
  "mainBotLogic orch store client guildId isMusicCommand userVoiceChannelId clk =
     (if isMusicCommand \<and> truthy userVoiceChannelId
         \<and> existingChannel client guildId \<noteq> None
         \<and> existingChannel client guildId \<noteq> userVoiceChannelId
      then (False, orch)
      else if isMusicCommand
         \<and> (case store guildId of
               None \<Rightarrow> False
             | Some assignment \<Rightarrow> isActive assignment \<and> assignedBotId assignment \<noteq> clientBotId client)
      then (False, orch)
      else if isMusicCommand
      then (True, acquireIfPresent orch guildId (clientBotId client) (tAcquire clk))
      else (True, orch))"

text \<open>
  Lines 75-88: a failover bot that does not hold the lock tries to take it, gives up when
  it cannot, and releases it again when it can. The boolean tells whether the evaluation
  goes on.
\<close>

definition lockCheck :: "orchestrator option \<Rightarrow> string \<Rightarrow> string \<Rightarrow> clock \<Rightarrow> bool \<times> orchestrator option" where
  "lockCheck orch guildId b clk =
     (case orch of
        None \<Rightarrow> (True, None)
      | Some orc \<Rightarrow>
          (let (hasLock, locks1) = hasCommandLock (commandLocks orc) guildId b (tCheck clk)
           in if \<not> hasLock then
                (let (lockExists, locks2) = acquireCommandLock locks1 guildId b (tProbe clk)
                 in if \<not> lockExists then (False, Some (orc\<lparr>commandLocks := locks2\<rparr>))
                    else (True, Some (orc\<lparr>commandLocks := releaseCommandLock locks2 guildId b\<rparr>)))
              else (True, Some (orc\<lparr>commandLocks := locks1\<rparr>))))"

text \<open>
  Lines 163-166: a failover bot is available for the guild when it has no player in a
  voice channel there, or its player is in the user's voice channel.
\<close>

definition isAvailable :: "BotClient \<Rightarrow> string \<Rightarrow> string option \<Rightarrow> bool" where
  "isAvailable failover guildId userVoiceChannelId =
     (existingChannel failover guildId = None
      \<or> existingChannel failover guildId = userVoiceChannelId)"

text \<open>
  Lines 121-191: taking over from the main bot. The failover bots are the clients that
  are not the main bot, sorted by their key in the cluster; the first available one
  decides. The keys are compared with \<^verbatim>\<open>String.prototype.localeCompare\<close>, the locale
  collation of the JavaScript runtime; it is no part of the repository, and the router
  takes it as its first argument \<open>localeCompare\<close>.
\<close>

definition takeover ::
    "(string \<Rightarrow> string \<Rightarrow> int) \<Rightarrow> orchestrator \<Rightarrow> BotClient \<Rightarrow> string \<Rightarrow> string option \<Rightarrow> int
     \<Rightarrow> bool \<times> orchestrator" where
  "takeover localeCompare orc client guildId userVoiceChannelId now =
     (case find (\<lambda>(bid, botClient). isMainBot botClient) (bots orc) of
        None \<Rightarrow> (False, orc)
      | Some (mainId, mainBotClient) \<Rightarrow>
          if lavalink mainBotClient = None then (False, orc)
          else if existingChannel mainBotClient guildId = None then (False, orc)
          else if existingChannel mainBotClient guildId = userVoiceChannelId then (False, orc)
          else
            (let failoverBots =
                   sortBy (\<lambda>a b. localeCompare (fst a) (fst b))
                     (filter (\<lambda>(bid, botClient). \<not> isMainBot botClient) (bots orc))
             in case find (\<lambda>(bid, botClient). isAvailable botClient guildId userVoiceChannelId)
                       failoverBots of
                  None \<Rightarrow> (False, orc)
                | Some (failoverId, failoverClient) \<Rightarrow>
                    if clientBotId failoverClient = clientBotId client then
                      (let (gotLock, locks') =
                             acquireCommandLock (commandLocks orc) guildId (clientBotId client) now
                       in if \<not> gotLock then (False, orc\<lparr>commandLocks := locks'\<rparr>)
                          else (True, orc\<lparr>commandLocks := locks'\<rparr>))
                    else (False, orc)))"

text \<open>Lines 70-191: a failover bot.\<close>

definition failoverLogic ::
    "(string \<Rightarrow> string \<Rightarrow> int) \<Rightarrow> orchestrator option \<Rightarrow> assignment_store \<Rightarrow> BotClient \<Rightarrow> string
     \<Rightarrow> bool \<Rightarrow> string option \<Rightarrow> clock \<Rightarrow> bool \<times> orchestrator option" where
  "failoverLogic localeCompare orch store client guildId isMusicCommand userVoiceChannelId clk =
     (if \<not> isMusicCommand then (False, orch)
      else
        (let (proceed, orch1) = lockCheck orch guildId (clientBotId client) clk
         in if \<not> proceed then (False, orch1)
            else if truthy userVoiceChannelId \<and> existingChannel client guildId \<noteq> None then
              (if existingChannel client guildId \<noteq> userVoiceChannelId then (False, orch1)
               else (True, acquireIfPresent orch1 guildId (clientBotId client) (tAcquire clk)))
            else if (case store guildId of
                       None \<Rightarrow> False
                     | Some assignment \<Rightarrow>
                         isActive assignment \<and> assignedBotId assignment = clientBotId client)
            then (True, acquireIfPresent orch1 guildId (clientBotId client) (tAcquire clk))
            else
              (case orch1 of
                 None \<Rightarrow> (False, orch1)
               | Some orc \<Rightarrow>
                   if \<not> truthy userVoiceChannelId then (False, orch1)
                   else
                     (let (handle, orc') =
                            takeover localeCompare orc client guildId userVoiceChannelId
                              (tAcquire clk)
                      in (handle, Some orc')))))"

definition shouldHandleCommand ::
    "(string \<Rightarrow> string \<Rightarrow> int) \<Rightarrow> orchestrator option \<Rightarrow> assignment_store \<Rightarrow> BotClient \<Rightarrow> string
     \<Rightarrow> bool \<Rightarrow> string option \<Rightarrow> clock \<Rightarrow> bool \<times> orchestrator option" where
  "shouldHandleCommand localeCompare orch store client guildId isMusicCommand userVoiceChannelId clk =
     (if isMainBot client
      then mainBotLogic orch store client guildId isMusicCommand userVoiceChannelId clk
      else failoverLogic localeCompare orch store client guildId isMusicCommand
             userVoiceChannelId clk)"

text \<open>
  The cluster is keyed by the clients' own identifiers: \<^verbatim>\<open>botCluster.set(botConfig.id, client)\<close>,
  a map having one entry per key.
\<close>

definition wellFormed :: "botCluster \<Rightarrow> bool" where
  "wellFormed cluster =
     (distinct (map fst cluster) \<and> (\<forall>(bid, botClient) \<in> set cluster. clientBotId botClient = bid))"

text \<open>The main bot has a player of the guild in a voice channel other than the user's.\<close>

definition mainBusyElsewhere :: "botCluster \<Rightarrow> string \<Rightarrow> string option \<Rightarrow> bool" where
  "mainBusyElsewhere cluster guildId userVoiceChannelId =
     (case find (\<lambda>(bid, botClient). isMainBot botClient) cluster of
        None \<Rightarrow> False
      | Some (mainId, mainBotClient) \<Rightarrow>
          existingChannel mainBotClient guildId \<noteq> None
          \<and> existingChannel mainBotClient guildId \<noteq> userVoiceChannelId)"

text \<open>
  The comparison orders the identifiers linearly: any two of them are comparable, two that
  compare both ways are equal, and the comparison is transitive.
\<close>

definition collation :: "(string \<Rightarrow> string \<Rightarrow> int) \<Rightarrow> string list \<Rightarrow> bool" where
  "collation cmp ids =
     (\<forall>a \<in> set ids. \<forall>b \<in> set ids.
        (cmp a b \<le> 0 \<or> cmp b a \<le> 0)
        \<and> (cmp a b \<le> 0 \<and> cmp b a \<le> 0 \<longrightarrow> a = b)
        \<and> (\<forall>c \<in> set ids. cmp a b \<le> 0 \<and> cmp b c \<le> 0 \<longrightarrow> cmp a c \<le> 0))"

text \<open>
  Availability of a bot for a guild in the words of the specification: the bot has no
  player for the guild, or it has a player that is in the user's voice channel.
\<close>

definition availableAsStated :: "BotClient \<Rightarrow> string \<Rightarrow> string option \<Rightarrow> bool" where
  "availableAsStated failover guildId userVoiceChannelId =
     (case getPlayer failover guildId of
        None \<Rightarrow> True
      | Some p \<Rightarrow> voiceChannelId p = userVoiceChannelId)"

text \<open>
  Availability with the third case added: the bot has no player for the guild, or its
  player is connected to no voice channel (the channel is null or the empty string), or
  its player is in the user's voice channel.
\<close>

definition availableFor :: "BotClient \<Rightarrow> string \<Rightarrow> string option \<Rightarrow> bool" where
  "availableFor failover guildId userVoiceChannelId =
     (case getPlayer failover guildId of
        None \<Rightarrow> True
      | Some p \<Rightarrow>
          voiceChannelId p = None \<or> voiceChannelId p = Some []
          \<or> voiceChannelId p = userVoiceChannelId)"

text \<open>
  The peer is the first available failover bot: it is a failover bot of the cluster that
  is available, and it compares at or before every available failover bot of the cluster.
\<close>

definition firstAmong ::
    "(string \<Rightarrow> string \<Rightarrow> int) \<Rightarrow> (BotClient \<Rightarrow> string \<Rightarrow> string option \<Rightarrow> bool) \<Rightarrow> botCluster
     \<Rightarrow> string \<Rightarrow> string option \<Rightarrow> string \<Rightarrow> bool" where
  "firstAmong cmp available cluster guildId userVoiceChannelId b =
     ((\<exists>(bid, botClient) \<in> set cluster.
          bid = b \<and> \<not> isMainBot botClient \<and> available botClient guildId userVoiceChannelId)
      \<and> (\<forall>(bid, botClient) \<in> set cluster.
            \<not> isMainBot botClient \<and> available botClient guildId userVoiceChannelId
            \<longrightarrow> cmp b bid \<le> 0))"

text \<open>Another peer holds a lock of the guild that has not expired at the given time.\<close>

definition heldByOther :: "lock_table \<Rightarrow> string \<Rightarrow> string \<Rightarrow> int \<Rightarrow> bool" where
  "heldByOther locks guildId b now =
     (case locks guildId of
        None \<Rightarrow> False
      | Some existing \<Rightarrow> \<not> now - timestamp existing > LOCK_TIMEOUT \<and> botId existing \<noteq> b)"

text \<open>The guild has an active assignment owned by the peer.\<close>

definition assignedTo :: "assignment_store \<Rightarrow> string \<Rightarrow> string \<Rightarrow> bool" where
  "assignedTo store guildId b =
     (case store guildId of
        None \<Rightarrow> False
      | Some assignment \<Rightarrow> isActive assignment \<and> assignedBotId assignment = b)"

text \<open>The guild has an active assignment owned by some other peer.\<close>

definition assignedElsewhere :: "assignment_store \<Rightarrow> string \<Rightarrow> string \<Rightarrow> bool" where
  "assignedElsewhere store guildId b =
     (case store guildId of
        None \<Rightarrow> False
      | Some assignment \<Rightarrow> isActive assignment \<and> assignedBotId assignment \<noteq> b)"

section \<open>Example states\<close>

text \<open>
  A main bot playing in voice channel \<^verbatim>\<open>C1\<close> of guild \<^verbatim>\<open>guild1\<close>, two idle failover
  bots, and a failover bot that is logged out.
\<close>

definition mainBusy :: BotClient where
  "mainBusy = \<lparr>clientBotId = ''bot-1'', isMainBot = True, isReady = True, playerCount = Some 1,
               lavalink = Some [(''guild1'', \<lparr>voiceChannelId = Some ''C1''\<rparr>)],
               clientId = ''1001''\<rparr>"

definition idle2 :: BotClient where
  "idle2 = \<lparr>clientBotId = ''bot-2'', isMainBot = False, isReady = True, playerCount = Some 0,
            lavalink = Some [], clientId = ''1002''\<rparr>"

definition idle3 :: BotClient where
  "idle3 = \<lparr>clientBotId = ''bot-3'', isMainBot = False, isReady = True, playerCount = Some 0,
            lavalink = Some [], clientId = ''1003''\<rparr>"

definition down2 :: BotClient where
  "down2 = \<lparr>clientBotId = ''bot-2'', isMainBot = False, isReady = False, playerCount = Some 0,
            lavalink = Some [], clientId = ''1002''\<rparr>"

text \<open>A cluster at capacity 2: the main bot runs three players, the failover bot two.\<close>

definition mainFull :: BotClient where
  "mainFull = \<lparr>clientBotId = ''bot-1'', isMainBot = True, isReady = True, playerCount = Some 3,
               lavalink = Some [(''guild1'', \<lparr>voiceChannelId = Some ''C1''\<rparr>),
                                (''guild2'', \<lparr>voiceChannelId = Some ''C2''\<rparr>),
                                (''guild3'', \<lparr>voiceChannelId = Some ''C3''\<rparr>)],
               clientId = ''1001''\<rparr>"

definition failoverFull :: BotClient where
  "failoverFull = \<lparr>clientBotId = ''bot-2'', isMainBot = False, isReady = True, playerCount = Some 2,
                   lavalink = Some [(''guild4'', \<lparr>voiceChannelId = Some ''C4''\<rparr>),
                                    (''guild5'', \<lparr>voiceChannelId = Some ''C5''\<rparr>)],
                   clientId = ''1002''\<rparr>"

text \<open>
  A collation for the examples: strings compared by the codes of their characters, first
  difference deciding.
\<close>

definition byCodePoint :: "string \<Rightarrow> string \<Rightarrow> int" where
  "byCodePoint a b = (if a < b then - 1 else if a = b then 0 else 1)"

text \<open>
  A failover bot that has a player for \<^verbatim>\<open>guild1\<close> which is connected to no voice
  channel, and the cluster in which it stands between the busy main bot and an idle bot.
\<close>

definition parked2 :: BotClient where
  "parked2 = \<lparr>clientBotId = ''bot-2'', isMainBot = False, isReady = True, playerCount = Some 1,
              lavalink = Some [(''guild1'', \<lparr>voiceChannelId = None\<rparr>)], clientId = ''1002''\<rparr>"

definition orcParked :: orchestrator where
  "orcParked = \<lparr>bots = [(''bot-1'', mainBusy), (''bot-2'', parked2), (''bot-3'', idle3)],
                commandLocks = Map.empty\<rparr>"

text \<open>The cluster of the failover scenario and two states of its orchestrator.\<close>

definition cluster3 :: botCluster where
  "cluster3 = [(''bot-1'', mainBusy), (''bot-2'', idle2), (''bot-3'', idle3)]"

definition orcFree :: orchestrator where
  "orcFree = \<lparr>bots = cluster3, commandLocks = Map.empty\<rparr>"

definition orcLocked :: orchestrator where
  "orcLocked = \<lparr>bots = cluster3,
                commandLocks = [''guild1'' \<mapsto> \<lparr>botId = ''bot-2'', timestamp = 101\<rparr>]\<rparr>"

text \<open>An assignment of \<^verbatim>\<open>guild1\<close>, by owner, activity flag and time of last activity.\<close>

definition assignmentOf :: "string \<Rightarrow> bool \<Rightarrow> int \<Rightarrow> GuildAssignment" where
  "assignmentOf owner active lastSeen =
     \<lparr>assignedBotId = owner, assignedClientId = ''1000'', assignmentVoiceChannelId = None,
      textChannelId = None, isActive = active, assignedAt = 0, lastActivity = lastSeen,
      assignmentReason = Auto, previousBotId = None\<rparr>"

text \<open>
  The guild has a sticky owner: an assignment that is active and whose bot is in the
  cluster and ready.
\<close>

definition sticky :: "botCluster \<Rightarrow> assignment_store \<Rightarrow> string \<Rightarrow> bool" where
  "sticky cluster store guildId =
     (case store guildId of
        None \<Rightarrow> False
      | Some assignment \<Rightarrow>
          isActive assignment \<and>
          (case map_of cluster (assignedBotId assignment) of
             None \<Rightarrow> False
           | Some owner \<Rightarrow> isReady owner))"

section \<open>Lock table: per-call contracts\<close>

text \<open>
  C2. Contract of one \<^verbatim>\<open>acquireCommandLock\<close> call: with no entry for the key it returns
  true and creates an entry owned by the caller; with an entry older than the timeout
  (10000 ms) it returns true and replaces the entry, no release being needed; with a fresh
  entry of another peer it returns false and leaves the table as it is; with a fresh entry
  of the caller it returns true and leaves the table, hence the timestamp, as it is.
\<close>

theorem acquireCommandLock_contract:
  "(locks g = None \<longrightarrow>
      acquireCommandLock locks g p now = (True, locks(g \<mapsto> \<lparr>botId = p, timestamp = now\<rparr>)))
   \<and> (locks g = Some e \<and> now - timestamp e > 10000 \<longrightarrow>
      acquireCommandLock locks g p now = (True, locks(g \<mapsto> \<lparr>botId = p, timestamp = now\<rparr>)))
   \<and> (locks g = Some e \<and> now - timestamp e \<le> 10000 \<and> botId e \<noteq> p \<longrightarrow>
      acquireCommandLock locks g p now = (False, locks))
   \<and> (locks g = Some e \<and> now - timestamp e \<le> 10000 \<and> botId e = p \<longrightarrow>
      acquireCommandLock locks g p now = (True, locks)
      \<and> snd (acquireCommandLock locks g p now) g = Some e)"
  by (auto simp: acquireCommandLock_def LOCK_TIMEOUT_def)

theorem acquireCommandLock_contract_witness:
  "(Map.empty :: lock_table) ''guild1'' = None
   \<and> acquireCommandLock Map.empty ''guild1'' ''A'' 5
       = (True, [''guild1'' \<mapsto> \<lparr>botId = ''A'', timestamp = 5\<rparr>])
   \<and> 10006 - timestamp \<lparr>botId = ''A'', timestamp = 5\<rparr> > 10000
   \<and> acquireCommandLock [''guild1'' \<mapsto> \<lparr>botId = ''A'', timestamp = 5\<rparr>] ''guild1'' ''B'' 10006
       = (True, [''guild1'' \<mapsto> \<lparr>botId = ''B'', timestamp = 10006\<rparr>])
   \<and> botId \<lparr>botId = ''A'', timestamp = 5\<rparr> \<noteq> ''B''
   \<and> acquireCommandLock [''guild1'' \<mapsto> \<lparr>botId = ''A'', timestamp = 5\<rparr>] ''guild1'' ''B'' 10005
       = (False, [''guild1'' \<mapsto> \<lparr>botId = ''A'', timestamp = 5\<rparr>])
   \<and> acquireCommandLock [''guild1'' \<mapsto> \<lparr>botId = ''A'', timestamp = 5\<rparr>] ''guild1'' ''A'' 10005
       = (True, [''guild1'' \<mapsto> \<lparr>botId = ''A'', timestamp = 5\<rparr>])"
  using acquireCommandLock_contract
          [of "Map.empty" "''guild1''" "''A''" 5 "\<lparr>botId = ''A'', timestamp = 5\<rparr>"]
        acquireCommandLock_contract
          [of "[''guild1'' \<mapsto> \<lparr>botId = ''A'', timestamp = 5\<rparr>]" "''guild1''" "''B''" 10006
              "\<lparr>botId = ''A'', timestamp = 5\<rparr>"]
        acquireCommandLock_contract
          [of "[''guild1'' \<mapsto> \<lparr>botId = ''A'', timestamp = 5\<rparr>]" "''guild1''" "''B''" 10005
              "\<lparr>botId = ''A'', timestamp = 5\<rparr>"]
        acquireCommandLock_contract
          [of "[''guild1'' \<mapsto> \<lparr>botId = ''A'', timestamp = 5\<rparr>]" "''guild1''" "''A''" 10005
              "\<lparr>botId = ''A'', timestamp = 5\<rparr>"]
  by simp

text \<open>
  C7. \<^verbatim>\<open>releaseCommandLock\<close> removes the entry of the key exactly when that entry is
  owned by the caller and leaves every other table as it is. In the scenario of the
  specification (A acquires, B is refused, A's lock expires, B acquires, A releases) the
  release by A changes nothing and B's entry stays.
\<close>

theorem releaseCommandLock_owner_gated:
  "(owns locks g p \<longrightarrow> releaseCommandLock locks g p = locks(g := None))
   \<and> (\<not> owns locks g p \<longrightarrow> releaseCommandLock locks g p = locks)
   \<and> (locks g = None \<and> A \<noteq> B \<and> t - t0 \<le> 10000 \<and> t1 - t0 > 10000 \<longrightarrow>
        (let (r1, l1) = acquireCommandLock locks g A t0;
             (r2, l2) = acquireCommandLock l1 g B t;
             (r3, l3) = acquireCommandLock l2 g B t1;
             l4 = releaseCommandLock l3 g A
         in r1 \<and> \<not> r2 \<and> r3 \<and> l4 = l3 \<and> l4 g = Some \<lparr>botId = B, timestamp = t1\<rparr>))"
  by (auto simp: owns_def releaseCommandLock_def acquireCommandLock_def LOCK_TIMEOUT_def
           split: option.splits)

theorem releaseCommandLock_owner_gated_witness:
  "owns [''guild1'' \<mapsto> \<lparr>botId = ''A'', timestamp = 0\<rparr>] ''guild1'' ''A''
   \<and> releaseCommandLock [''guild1'' \<mapsto> \<lparr>botId = ''A'', timestamp = 0\<rparr>] ''guild1'' ''A'' = Map.empty
   \<and> \<not> owns [''guild1'' \<mapsto> \<lparr>botId = ''B'', timestamp = 10001\<rparr>] ''guild1'' ''A''
   \<and> releaseCommandLock [''guild1'' \<mapsto> \<lparr>botId = ''B'', timestamp = 10001\<rparr>] ''guild1'' ''A''
       = [''guild1'' \<mapsto> \<lparr>botId = ''B'', timestamp = 10001\<rparr>]
   \<and> (Map.empty :: lock_table) ''guild1'' = None \<and> ''A'' \<noteq> ''B''
   \<and> (5 :: int) - 0 \<le> 10000 \<and> (10001 :: int) - 0 > 10000
   \<and> (let (r1, l1) = acquireCommandLock Map.empty ''guild1'' ''A'' 0;
           (r2, l2) = acquireCommandLock l1 ''guild1'' ''B'' 5;
           (r3, l3) = acquireCommandLock l2 ''guild1'' ''B'' 10001;
           l4 = releaseCommandLock l3 ''guild1'' ''A''
       in r1 \<and> \<not> r2 \<and> r3 \<and> l4 = l3
          \<and> l4 ''guild1'' = Some \<lparr>botId = ''B'', timestamp = 10001\<rparr>)"
  using releaseCommandLock_owner_gated
          [where locks = "[''guild1'' \<mapsto> \<lparr>botId = ''A'', timestamp = 0\<rparr>]"
             and g = "''guild1''" and p = "''A''"]
        releaseCommandLock_owner_gated
          [where locks = "[''guild1'' \<mapsto> \<lparr>botId = ''B'', timestamp = 10001\<rparr>]"
             and g = "''guild1''" and p = "''A''"]
        releaseCommandLock_owner_gated
          [where locks = "Map.empty" and g = "''guild1''" and p = "''A''"
             and A = "''A''" and B = "''B''" and t = 5 and ?t0.0 = 0 and ?t1.0 = 10001]
  by (simp add: owns_def)

section \<open>Lock table: mutual exclusion\<close>

lemma acquire_fresh:
  assumes "locks g = Some e" and "now - timestamp e \<le> LOCK_TIMEOUT"
  shows "acquireCommandLock locks g b now = (b = botId e, locks)"
  using assms by (auto simp: acquireCommandLock_def)

lemma acquire_vacant:
  assumes "locks g = None \<or> (\<exists>e. locks g = Some e \<and> now - timestamp e > LOCK_TIMEOUT)"
  shows "acquireCommandLock locks g b now = (True, locks(g \<mapsto> \<lparr>botId = b, timestamp = now\<rparr>))"
  using assms by (auto simp: acquireCommandLock_def)

lemma acquire_calls_held:
  assumes "locks g = Some e"
    and "list_all (\<lambda>(b, now). now - timestamp e \<le> LOCK_TIMEOUT) cs"
  shows "acquire_calls locks g cs = (map (\<lambda>(b, now). b = botId e) cs, locks)"
  using assms
proof (induction cs)
  case Nil
  then show ?case by simp
next
  case (Cons c cs)
  obtain b now where c: "c = (b, now)" by (cases c)
  from Cons.prems c have "now - timestamp e \<le> LOCK_TIMEOUT" by simp
  with Cons.prems(1) have "acquireCommandLock locks g b now = (b = botId e, locks)"
    by (rule acquire_fresh)
  moreover from Cons have "acquire_calls locks g cs = (map (\<lambda>(b, now). b = botId e) cs, locks)"
    by simp
  ultimately show ?case using c by simp
qed

lemma count_owner_distinct:
  assumes "distinct (map fst cs)"
  shows "length (filter (\<lambda>r. r) (map (\<lambda>(b, now). b = x) cs)) = (if x \<in> set (map fst cs) then 1 else 0)"
proof -
  have "length (filter (\<lambda>c. fst c = x) cs) = (if x \<in> fst ` set cs then 1 else 0)"
    using assms by (induction cs) force+
  moreover have "filter (\<lambda>r. r) (map (\<lambda>(b, now). b = x) cs) = map (\<lambda>(b, now). b = x) (filter (\<lambda>c. fst c = x) cs)"
    by (induction cs) auto
  ultimately show ?thesis by simp
qed

lemma acquire_calls_count:
  assumes d: "distinct (map fst cs)" and w: "in_window locks g cs"
  shows "length (filter (\<lambda>r. r) (fst (acquire_calls locks g cs)))
         = (if cs = [] \<or> held_by_outsider locks g cs then 0 else 1)"
proof (cases cs)
  case Nil
  then show ?thesis by simp
next
  case (Cons c rest)
  obtain b now where c: "c = (b, now)" by (cases c)
  show ?thesis
  proof (cases "locks g = None \<or> (\<exists>e. locks g = Some e \<and> now - timestamp e > LOCK_TIMEOUT)")
    case True
    let ?l = "locks(g \<mapsto> \<lparr>botId = b, timestamp = now\<rparr>)"
    from True have a: "acquireCommandLock locks g b now = (True, ?l)" by (rule acquire_vacant)
    from True have ws: "window_start locks g now = now"
      by (auto simp: window_start_def)
    from w Cons c ws have "list_all (\<lambda>(b', now'). now' - now \<le> LOCK_TIMEOUT) rest" by simp
    then have "acquire_calls ?l g rest = (map (\<lambda>(b', now'). b' = b) rest, ?l)"
      using acquire_calls_held [of ?l g "\<lparr>botId = b, timestamp = now\<rparr>" rest] by simp
    moreover from d Cons c have "distinct (map fst rest)" "b \<notin> set (map fst rest)" by auto
    then have "length (filter (\<lambda>r. r) (map (\<lambda>(b', now'). b' = b) rest)) = 0"
      using count_owner_distinct [of rest b] by simp
    moreover from True have "\<not> held_by_outsider locks g cs"
      using Cons c by (auto simp: held_by_outsider_def)
    ultimately show ?thesis using Cons c a by simp
  next
    case False
    then obtain e where e: "locks g = Some e" "now - timestamp e \<le> LOCK_TIMEOUT"
      by (cases "locks g") (auto simp: not_less)
    then have ws: "window_start locks g now = timestamp e" by (simp add: window_start_def)
    with w Cons c e have "list_all (\<lambda>(b', now'). now' - timestamp e \<le> LOCK_TIMEOUT) cs" by simp
    with e(1) have "acquire_calls locks g cs = (map (\<lambda>(b, now). b = botId e) cs, locks)"
      by (rule acquire_calls_held)
    moreover have "held_by_outsider locks g cs = (botId e \<notin> set (map fst cs))"
      using Cons c e by (simp add: held_by_outsider_def)
    ultimately show ?thesis using count_owner_distinct [OF d, of "botId e"] Cons by simp
  qed
qed

lemma hasCommandLock_unique:
  assumes "fst (hasCommandLock locks k p now)" and "fst (hasCommandLock locks k q now)"
  shows "p = q"
  using assms by (auto simp: hasCommandLock_def split: option.splits if_splits)


lemma acquire_calls_all_false:
  assumes "length (filter (\<lambda>r. r) rs) = 0"
  shows "rs = replicate (length rs) False"
  using assms by (induction rs) (auto split: if_splits)

lemma length_acquire_calls: "length (fst (acquire_calls locks g cs)) = length cs"
  by (induction cs arbitrary: locks) (auto simp: split_beta)

lemma lock_step_undisturbed:
  assumes "locks k = Some e" and "undisturbed k e op"
  shows "lock_step locks op k = Some e"
  using assms
  by (cases op)
     (auto simp: acquireCommandLock_def releaseCommandLock_def hasCommandLock_def
           split: option.splits)

lemma lock_run_undisturbed:
  assumes "locks k = Some e" and "list_all (undisturbed k e) ops"
  shows "lock_run locks ops k = Some e"
  using assms unfolding lock_run_def
proof (induction ops arbitrary: locks)
  case Nil
  then show ?case by simp
next
  case (Cons op ops)
  from Cons.prems have "lock_step locks op k = Some e" by (simp add: lock_step_undisturbed)
  with Cons show ?case by simp
qed

lemma refused_while_undisturbed:
  assumes "locks k = Some e" and "list_all (undisturbed k e) (pre @ Acquire k q t # post)"
    and "q \<noteq> botId e"
  shows "\<not> fst (acquireCommandLock (lock_run locks pre) k q t)"
proof -
  from assms(2) have "list_all (undisturbed k e) pre" and "t - timestamp e \<le> LOCK_TIMEOUT"
    by simp_all
  with assms(1) have "lock_run locks pre k = Some e" by (simp add: lock_run_undisturbed)
  with \<open>t - timestamp e \<le> LOCK_TIMEOUT\<close> assms(3) show ?thesis
    by (simp add: acquire_fresh)
qed

text \<open>
  C1 (as amended). Acquire calls by pairwise distinct peers on one key, made one after the
  other inside the timeout window: from a table in which a peer outside the callers holds
  a fresh lock of the key every call returns false; from any other table, and with at
  least one call, exactly one call returns true and the others false. A fresh entry is
  never disturbed by other peers: through every sequence of acquire, release and hasLock
  operations in which the operations on its key are made before it expires and its owner
  does not release it, the entry stays as it is, every acquire of another peer on the key
  is refused, and only the owner is told that it holds the lock. After any sequence of
  operations at most one peer holds the lock of a key at any time.
\<close>

theorem acquire_calls_mutual_exclusion:
  "(distinct (map fst cs) \<and> in_window locks g cs \<longrightarrow>
      length (filter (\<lambda>r. r) (fst (acquire_calls locks g cs)))
        = (if cs = [] \<or> held_by_outsider locks g cs then 0 else 1)
      \<and> (held_by_outsider locks g cs \<longrightarrow>
            fst (acquire_calls locks g cs) = replicate (length cs) False))
   \<and> (locks k = Some e \<and> list_all (undisturbed k e) ops \<longrightarrow>
        lock_run locks ops k = Some e
        \<and> (\<forall>pre q t post. ops = pre @ Acquire k q t # post \<and> q \<noteq> botId e \<longrightarrow>
              \<not> fst (acquireCommandLock (lock_run locks pre) k q t))
        \<and> (\<forall>q now. fst (hasCommandLock (lock_run locks ops) k q now) \<longrightarrow> q = botId e))
   \<and> (fst (hasCommandLock (lock_run locks ops) k p now)
        \<and> fst (hasCommandLock (lock_run locks ops) k q now) \<longrightarrow> p = q)"
proof (intro conjI impI allI)
  assume a: "distinct (map fst cs) \<and> in_window locks g cs"
  then show c: "length (filter (\<lambda>r. r) (fst (acquire_calls locks g cs)))
        = (if cs = [] \<or> held_by_outsider locks g cs then 0 else 1)"
    by (simp add: acquire_calls_count)
  assume "held_by_outsider locks g cs"
  with c have "length (filter (\<lambda>r. r) (fst (acquire_calls locks g cs))) = 0" by simp
  then have "fst (acquire_calls locks g cs)
             = replicate (length (fst (acquire_calls locks g cs))) False"
    by (rule acquire_calls_all_false)
  then show "fst (acquire_calls locks g cs) = replicate (length cs) False"
    by (simp only: length_acquire_calls)
next
  assume a: "locks k = Some e \<and> list_all (undisturbed k e) ops"
  then show r: "lock_run locks ops k = Some e" by (simp add: lock_run_undisturbed)
  fix q now
  assume "fst (hasCommandLock (lock_run locks ops) k q now)"
  with r show "q = botId e"
    by (auto simp: hasCommandLock_def split: if_splits)
next
  fix pre q t post
  assume "locks k = Some e \<and> list_all (undisturbed k e) ops"
    and "ops = pre @ Acquire k q t # post \<and> q \<noteq> botId e"
  then show "\<not> fst (acquireCommandLock (lock_run locks pre) k q t)"
    using refused_while_undisturbed [of locks k e pre q t post] by simp
next
  assume "fst (hasCommandLock (lock_run locks ops) k p now)
        \<and> fst (hasCommandLock (lock_run locks ops) k q now)"
  then show "p = q" using hasCommandLock_unique by blast
qed

theorem acquire_calls_mutual_exclusion_witness:
  "distinct (map fst [(''A'', 0 :: int), (''B'', 1), (''C'', 10000)])
   \<and> in_window Map.empty ''guild1'' [(''A'', 0), (''B'', 1), (''C'', 10000)]
   \<and> \<not> held_by_outsider Map.empty ''guild1'' [(''A'', 0), (''B'', 1), (''C'', 10000)]
   \<and> length (filter (\<lambda>r. r)
        (fst (acquire_calls Map.empty ''guild1'' [(''A'', 0), (''B'', 1), (''C'', 10000)]))) = 1
   \<and> distinct (map fst [(''A'', 1 :: int), (''B'', 2)])
   \<and> in_window [''guild1'' \<mapsto> \<lparr>botId = ''X'', timestamp = 0\<rparr>] ''guild1'' [(''A'', 1), (''B'', 2)]
   \<and> held_by_outsider [''guild1'' \<mapsto> \<lparr>botId = ''X'', timestamp = 0\<rparr>] ''guild1'' [(''A'', 1), (''B'', 2)]
   \<and> fst (acquire_calls [''guild1'' \<mapsto> \<lparr>botId = ''X'', timestamp = 0\<rparr>] ''guild1''
            [(''A'', 1), (''B'', 2)]) = [False, False]
   \<and> list_all (undisturbed ''guild1'' \<lparr>botId = ''X'', timestamp = 0\<rparr>)
        [Acquire ''guild1'' ''A'' 1, Release ''guild1'' ''A'', HasLock ''guild1'' ''B'' 2,
         Acquire ''guild1'' ''X'' 10000]
   \<and> lock_run [''guild1'' \<mapsto> \<lparr>botId = ''X'', timestamp = 0\<rparr>]
        [Acquire ''guild1'' ''A'' 1, Release ''guild1'' ''A'', HasLock ''guild1'' ''B'' 2,
         Acquire ''guild1'' ''X'' 10000] ''guild1''
       = Some \<lparr>botId = ''X'', timestamp = 0\<rparr>
   \<and> \<not> fst (acquireCommandLock (lock_run [''guild1'' \<mapsto> \<lparr>botId = ''X'', timestamp = 0\<rparr>] [])
               ''guild1'' ''A'' 1)"
proof -
  let ?cs = "[(''A'', 0 :: int), (''B'', 1), (''C'', 10000)]"
  let ?cs' = "[(''A'', 1 :: int), (''B'', 2)]"
  let ?x = "\<lparr>botId = ''X'', timestamp = 0\<rparr>"
  let ?ops = "[Acquire ''guild1'' ''A'' 1, Release ''guild1'' ''A'', HasLock ''guild1'' ''B'' 2,
               Acquire ''guild1'' ''X'' 10000]"
  have h1: "distinct (map fst ?cs) \<and> in_window Map.empty ''guild1'' ?cs"
    by (simp add: window_start_def LOCK_TIMEOUT_def)
  have n1: "\<not> held_by_outsider Map.empty ''guild1'' ?cs"
    by (simp add: held_by_outsider_def)
  have h2: "distinct (map fst ?cs') \<and> in_window [''guild1'' \<mapsto> ?x] ''guild1'' ?cs'"
    by (simp add: window_start_def LOCK_TIMEOUT_def)
  have o2: "held_by_outsider [''guild1'' \<mapsto> ?x] ''guild1'' ?cs'"
    by (simp add: held_by_outsider_def LOCK_TIMEOUT_def)
  have h3: "[''guild1'' \<mapsto> ?x] ''guild1'' = Some ?x \<and> list_all (undisturbed ''guild1'' ?x) ?ops"
    by (simp add: LOCK_TIMEOUT_def)
  have split: "?ops = [] @ Acquire ''guild1'' ''A'' 1
                 # [Release ''guild1'' ''A'', HasLock ''guild1'' ''B'' 2, Acquire ''guild1'' ''X'' 10000]
               \<and> ''A'' \<noteq> botId ?x"
    by simp
  note t1 = acquire_calls_mutual_exclusion
              [where cs = ?cs and locks = "Map.empty" and g = "''guild1''", THEN conjunct1]
  note t2 = acquire_calls_mutual_exclusion
              [where cs = ?cs' and locks = "[''guild1'' \<mapsto> ?x]" and g = "''guild1''",
               THEN conjunct1]
  note t3 = acquire_calls_mutual_exclusion
              [where locks = "[''guild1'' \<mapsto> ?x]" and k = "''guild1''" and e = ?x and ops = ?ops,
               THEN conjunct2, THEN conjunct1]
  from t1 h1 n1 have r1: "length (filter (\<lambda>r. r) (fst (acquire_calls Map.empty ''guild1'' ?cs))) = 1"
    by simp
  from t2 h2 o2
  have "fst (acquire_calls [''guild1'' \<mapsto> ?x] ''guild1'' ?cs') = replicate (length ?cs') False"
    by blast
  then have r2: "fst (acquire_calls [''guild1'' \<mapsto> ?x] ''guild1'' ?cs') = [False, False]"
    by simp
  from t3 h3 have r3: "lock_run [''guild1'' \<mapsto> ?x] ?ops ''guild1'' = Some ?x"
    by blast
  from t3 h3 split
  have r4: "\<not> fst (acquireCommandLock (lock_run [''guild1'' \<mapsto> ?x] []) ''guild1'' ''A'' 1)"
    by blast
  from h1 n1 r1 h2 o2 r2 h3 r3 r4 show ?thesis by blast
qed

text \<open>
  C1 as stated fails from a table in which a peer outside the callers holds a fresh
  lock: both calls are refused, so none succeeds.
\<close>

theorem acquire_calls_exactly_one_counterexample:
  "distinct (map fst [(''A'', 1 :: int), (''B'', 2)])
   \<and> in_window [''guild1'' \<mapsto> \<lparr>botId = ''X'', timestamp = 0\<rparr>] ''guild1'' [(''A'', 1), (''B'', 2)]
   \<and> fst (acquire_calls [''guild1'' \<mapsto> \<lparr>botId = ''X'', timestamp = 0\<rparr>] ''guild1''
            [(''A'', 1), (''B'', 2)]) = [False, False]"
  by (simp add: window_start_def acquireCommandLock_def LOCK_TIMEOUT_def)

section \<open>Load balancer\<close>

text \<open>
  C4. With every ready bot at or above capacity, \<^verbatim>\<open>_selectByPriority\<close> falls back to the
  head of its sorted list, which is the main bot whenever the main bot is ready. At
  capacity 2, with the main bot on three players and the failover bot on two, it returns
  the main bot, although the failover bot is ready and carries the smaller load.
\<close>

theorem selectByPriority_at_capacity_returns_main:
  "selectByPriority \<lparr>strategy = ''priority'', maxPlayersPerBot = 2\<rparr>
       [(''bot-1'', mainFull), (''bot-2'', failoverFull)] = Some (''bot-1'', mainFull)
   \<and> isReady mainFull \<and> isReady failoverFull
   \<and> playersSize mainFull = 3 \<and> playersSize failoverFull = 2
   \<and> cachedCount mainFull = 3 \<and> cachedCount failoverFull = 2"
  by (simp add: selectByPriority_def sortBy_def compareBots_def cachedCount_def playersSize_def
        mainFull_def failoverFull_def)

text \<open>
  C6 (as amended). The status a heartbeat computes for a bot is Offline when the bot is
  not ready, whatever its player count; for a ready bot it is InUse when the player count
  is at or above the capacity, InUse as well when the count is below the capacity and at
  least 1, and Available only when the count is below the capacity and 0. The capacity is
  the configured \<^verbatim>\<open>maxPlayersPerBot\<close>, 100 when none is given. Every bot of the cluster
  gets the status so computed on each tick.
\<close>

theorem updateBotStatus_status:
  "(\<not> isReady client \<longrightarrow> snd (updateBotStatus opts client) = Offline)
   \<and> (isReady client \<and> int (playersSize client) \<ge> maxPlayersPerBot opts \<longrightarrow>
        snd (updateBotStatus opts client) = InUse)
   \<and> (isReady client \<and> int (playersSize client) < maxPlayersPerBot opts
        \<and> playersSize client \<ge> 1 \<longrightarrow>
        snd (updateBotStatus opts client) = InUse)
   \<and> (isReady client \<and> int (playersSize client) < maxPlayersPerBot opts
        \<and> playersSize client = 0 \<longrightarrow>
        snd (updateBotStatus opts client) = Available)
   \<and> maxPlayersPerBot (newOptions strat None) = 100
   \<and> map (\<lambda>(bid, client', st). st) (heartbeat opts cluster)
        = map (\<lambda>(bid, client). snd (updateBotStatus opts client)) cluster"
  by (auto simp: updateBotStatus_def newOptions_def heartbeat_def Let_def)

theorem updateBotStatus_status_witness:
  "\<not> isReady down2 \<and> snd (updateBotStatus (newOptions None None) down2) = Offline
   \<and> isReady mainFull \<and> int (playersSize mainFull) \<ge> maxPlayersPerBot (newOptions None (Some 2))
   \<and> snd (updateBotStatus (newOptions None (Some 2)) mainFull) = InUse
   \<and> isReady idle2 \<and> int (playersSize idle2) \<ge> maxPlayersPerBot (newOptions None (Some (- 1)))
   \<and> snd (updateBotStatus (newOptions None (Some (- 1))) idle2) = InUse
   \<and> isReady mainBusy \<and> int (playersSize mainBusy) < maxPlayersPerBot (newOptions None None)
   \<and> playersSize mainBusy \<ge> 1
   \<and> snd (updateBotStatus (newOptions None None) mainBusy) = InUse
   \<and> isReady idle2 \<and> int (playersSize idle2) < maxPlayersPerBot (newOptions None None)
   \<and> playersSize idle2 = 0
   \<and> snd (updateBotStatus (newOptions None None) idle2) = Available"
  using updateBotStatus_status [where client = down2 and opts = "newOptions None None"]
        updateBotStatus_status [where client = mainFull and opts = "newOptions None (Some 2)"]
        updateBotStatus_status [where client = idle2 and opts = "newOptions None (Some (- 1))"]
        updateBotStatus_status [where client = mainBusy and opts = "newOptions None None"]
        updateBotStatus_status [where client = idle2 and opts = "newOptions None None"]
  by (simp add: down2_def mainFull_def mainBusy_def idle2_def playersSize_def newOptions_def)

text \<open>
  C6 as stated fails for a ready bot with one player and the default capacity of 100:
  the count is strictly between 0 and the capacity, and the status is InUse.
\<close>

theorem updateBotStatus_available_counterexample:
  "isReady mainBusy \<and> 0 < playersSize mainBusy
   \<and> int (playersSize mainBusy) < maxPlayersPerBot (newOptions None None)
   \<and> snd (updateBotStatus (newOptions None None) mainBusy) = InUse
   \<and> snd (updateBotStatus (newOptions None None) mainBusy) \<noteq> Available"
  by (simp add: updateBotStatus_def newOptions_def mainBusy_def playersSize_def)

section \<open>Assigning a bot to a guild\<close>

text \<open>
  C5. When the guild has an assignment that is active and whose bot is in the cluster and
  ready, \<^verbatim>\<open>assignBot\<close> touches the assignment (its \<^verbatim>\<open>lastActivity\<close> becomes the
  current time) and returns that bot with the touched assignment, whatever the selection
  step would compute: the result is the same for every selection function. Without such
  an assignment the result is determined by the outcome of the selection step.
\<close>

theorem assignBot_sticky:
  "(store K = Some a \<and> isActive a \<and> map_of cluster (assignedBotId a) = Some P \<and> isReady P \<longrightarrow>
      assignBotWith select opts cluster store K now
        = (Some \<lparr>assigned_botId = assignedBotId a, assigned_client = P,
                 assigned_assignment = a\<lparr>lastActivity := now\<rparr>\<rparr>,
           store(K \<mapsto> a\<lparr>lastActivity := now\<rparr>)))
   \<and> (sticky cluster store K \<longrightarrow>
        assignBotWith select opts cluster store K now
          = assignBotWith select' opts cluster store K now)
   \<and> (\<not> sticky cluster store K \<longrightarrow>
        assignBotWith select opts cluster store K now =
          (case select opts cluster of
             None \<Rightarrow> (None, store)
           | Some (selectedBotId, selectedClient) \<Rightarrow>
               (let (assignment, store') =
                      getOrCreateAssignment store K selectedBotId (clientId selectedClient)
                        (if store K \<noteq> None then Failover else Auto) now
                in (Some \<lparr>assigned_botId = selectedBotId, assigned_client = selectedClient,
                          assigned_assignment = assignment\<rparr>,
                    store'))))"
  by (auto simp: assignBotWith_def existingOwner_def touch_def sticky_def Let_def
           split: option.splits)

theorem assignBot_sticky_witness:
  "[''guild1'' \<mapsto> assignmentOf ''bot-1'' True 50] ''guild1'' = Some (assignmentOf ''bot-1'' True 50)
   \<and> isActive (assignmentOf ''bot-1'' True 50)
   \<and> map_of [(''bot-1'', mainBusy), (''bot-2'', idle2)] (assignedBotId (assignmentOf ''bot-1'' True 50))
       = Some mainBusy
   \<and> isReady mainBusy
   \<and> sticky [(''bot-1'', mainBusy), (''bot-2'', idle2)]
        [''guild1'' \<mapsto> assignmentOf ''bot-1'' True 50] ''guild1''
   \<and> assignBotWith (\<lambda>opts cluster. None) (newOptions None None)
        [(''bot-1'', mainBusy), (''bot-2'', idle2)]
        [''guild1'' \<mapsto> assignmentOf ''bot-1'' True 50] ''guild1'' 700
       = (Some \<lparr>assigned_botId = ''bot-1'', assigned_client = mainBusy,
                assigned_assignment = assignmentOf ''bot-1'' True 700\<rparr>,
          [''guild1'' \<mapsto> assignmentOf ''bot-1'' True 700])
   \<and> \<not> sticky [(''bot-1'', mainBusy), (''bot-2'', idle2)]
        [''guild1'' \<mapsto> assignmentOf ''bot-1'' False 50] ''guild1''
   \<and> assignBotWith (\<lambda>opts cluster. None) (newOptions None None)
        [(''bot-1'', mainBusy), (''bot-2'', idle2)]
        [''guild1'' \<mapsto> assignmentOf ''bot-1'' False 50] ''guild1'' 700
       = (None, [''guild1'' \<mapsto> assignmentOf ''bot-1'' False 50])"
  using assignBot_sticky
          [where store = "[''guild1'' \<mapsto> assignmentOf ''bot-1'' True 50]" and K = "''guild1''"
             and a = "assignmentOf ''bot-1'' True 50"
             and cluster = "[(''bot-1'', mainBusy), (''bot-2'', idle2)]" and P = mainBusy
             and select = "\<lambda>opts cluster. None" and opts = "newOptions None None" and now = 700]
        assignBot_sticky
          [where store = "[''guild1'' \<mapsto> assignmentOf ''bot-1'' False 50]" and K = "''guild1''"
             and cluster = "[(''bot-1'', mainBusy), (''bot-2'', idle2)]"
             and select = "\<lambda>opts cluster. None" and opts = "newOptions None None" and now = 700]
  by (simp add: sticky_def assignmentOf_def mainBusy_def)

text \<open>
  C10. \<^verbatim>\<open>assignBot\<close> can return an owner that the stored record does not name. When
  the guild's record names bot A but is inactive, or A is in the cluster and not ready,
  and the selection step picks another bot B, the call returns B as \<^verbatim>\<open>botId\<close> together
  with the stored record, which \<^verbatim>\<open>getOrCreateAssignment\<close> hands back as it is: the
  record still names A and the store is unchanged.
\<close>

theorem assignBot_disagrees_with_record:
  assumes "store G = Some a" and "assignedBotId a = A"
    and "\<not> isActive a \<or> (\<exists>c. map_of cluster A = Some c \<and> \<not> isReady c)"
    and "selectBot opts cluster = Some (B, cB)" and "B \<noteq> A"
  shows "\<exists>r. fst (assignBot opts cluster store G now) = Some r
            \<and> assigned_botId r = B
            \<and> assigned_assignment r = a
            \<and> assignedBotId (assigned_assignment r) = A
            \<and> snd (assignBot opts cluster store G now) = store
            \<and> getOrCreateAssignment store G B (clientId cB) Failover now = (a, store)"
  using assms
  by (auto simp: assignBot_def assignBotWith_def existingOwner_def getOrCreateAssignment_def)

theorem assignBot_disagrees_with_record_witness:
  "[''guild1'' \<mapsto> assignmentOf ''bot-2'' False 50] ''guild1'' = Some (assignmentOf ''bot-2'' False 50)
   \<and> assignedBotId (assignmentOf ''bot-2'' False 50) = ''bot-2''
   \<and> \<not> isActive (assignmentOf ''bot-2'' False 50)
   \<and> selectBot (newOptions None None) [(''bot-1'', mainBusy), (''bot-2'', idle2)]
       = Some (''bot-1'', mainBusy)
   \<and> ''bot-1'' \<noteq> ''bot-2''
   \<and> (\<exists>r. fst (assignBot (newOptions None None) [(''bot-1'', mainBusy), (''bot-2'', idle2)]
                  [''guild1'' \<mapsto> assignmentOf ''bot-2'' False 50] ''guild1'' 700) = Some r
          \<and> assigned_botId r = ''bot-1''
          \<and> assignedBotId (assigned_assignment r) = ''bot-2'')"
proof -
  have sel: "selectBot (newOptions None None) [(''bot-1'', mainBusy), (''bot-2'', idle2)]
             = Some (''bot-1'', mainBusy)"
    by (simp add: selectBot_def newOptions_def selectByPriority_def sortBy_def compareBots_def
          cachedCount_def playersSize_def mainBusy_def idle2_def)
  have inactive: "\<not> isActive (assignmentOf ''bot-2'' False 50)
                  \<or> (\<exists>c. map_of [(''bot-1'', mainBusy), (''bot-2'', idle2)] ''bot-2'' = Some c
                          \<and> \<not> isReady c)"
    by (simp add: assignmentOf_def)
  have owner: "assignedBotId (assignmentOf ''bot-2'' False 50) = ''bot-2''"
    by (simp add: assignmentOf_def)
  have stored: "[''guild1'' \<mapsto> assignmentOf ''bot-2'' False 50] ''guild1''
                = Some (assignmentOf ''bot-2'' False 50)"
    by simp
  have ne: "''bot-1'' \<noteq> ''bot-2''" by simp
  from assignBot_disagrees_with_record
         [where store = "[''guild1'' \<mapsto> assignmentOf ''bot-2'' False 50]" and G = "''guild1''"
            and a = "assignmentOf ''bot-2'' False 50" and A = "''bot-2''"
            and cluster = "[(''bot-1'', mainBusy), (''bot-2'', idle2)]"
            and opts = "newOptions None None" and B = "''bot-1''" and cB = mainBusy
            and now = 700, OF stored owner inactive sel ne]
  show ?thesis using sel owner stored by (auto simp: assignmentOf_def)
qed

section \<open>Stale sweep of the assignment store\<close>

text \<open>
  C8. \<^verbatim>\<open>releaseInactiveAssignments\<close> keeps every row and every key; a row that is active
  and whose \<^verbatim>\<open>lastActivity\<close> lies before the current time minus the threshold (300000 ms
  when none is given) gets \<^verbatim>\<open>isActive\<close> false, and nothing else of any row changes, so
  the owner stays. Sweeping a second time at the same clock reading changes nothing, and
  a second sweep at a later reading gives the store that one sweep at the later reading
  gives.
\<close>

theorem releaseInactiveAssignments_sweep:
  "(store k = None \<longrightarrow> releaseInactiveAssignments store th now k = None)
   \<and> (store k = Some a \<longrightarrow>
        releaseInactiveAssignments store th now k
          = Some (a\<lparr>isActive := isActive a \<and>
                      \<not> lastActivity a < now - (case th of None \<Rightarrow> 300000 | Some t \<Rightarrow> t)\<rparr>)
        \<and> (\<exists>a'. releaseInactiveAssignments store th now k = Some a'
               \<and> assignedBotId a' = assignedBotId a))
   \<and> dom (releaseInactiveAssignments store th now) = dom store
   \<and> releaseInactiveAssignments (releaseInactiveAssignments store th now) th now
       = releaseInactiveAssignments store th now
   \<and> (now \<le> now' \<longrightarrow>
        releaseInactiveAssignments (releaseInactiveAssignments store th now) th now'
        = releaseInactiveAssignments store th now')"
  by (auto simp: releaseInactiveAssignments_def Let_def fun_eq_iff split: option.splits if_splits)

theorem releaseInactiveAssignments_sweep_witness:
  "[''guild1'' \<mapsto> assignmentOf ''bot-1'' True 50, ''guild2'' \<mapsto> assignmentOf ''bot-2'' True 200000]
        ''guild3'' = None
   \<and> releaseInactiveAssignments
        [''guild1'' \<mapsto> assignmentOf ''bot-1'' True 50, ''guild2'' \<mapsto> assignmentOf ''bot-2'' True 200000]
        None 400000 ''guild3'' = None
   \<and> releaseInactiveAssignments
        [''guild1'' \<mapsto> assignmentOf ''bot-1'' True 50, ''guild2'' \<mapsto> assignmentOf ''bot-2'' True 200000]
        None 400000 ''guild1'' = Some (assignmentOf ''bot-1'' False 50)
   \<and> releaseInactiveAssignments
        [''guild1'' \<mapsto> assignmentOf ''bot-1'' True 50, ''guild2'' \<mapsto> assignmentOf ''bot-2'' True 200000]
        None 400000 ''guild2'' = Some (assignmentOf ''bot-2'' True 200000)
   \<and> (400000 :: int) \<le> 600000
   \<and> releaseInactiveAssignments
        (releaseInactiveAssignments
           [''guild1'' \<mapsto> assignmentOf ''bot-1'' True 50,
            ''guild2'' \<mapsto> assignmentOf ''bot-2'' True 200000] None 400000) None 600000
       = releaseInactiveAssignments
           [''guild1'' \<mapsto> assignmentOf ''bot-1'' True 50,
            ''guild2'' \<mapsto> assignmentOf ''bot-2'' True 200000] None 600000"
  using releaseInactiveAssignments_sweep
          [where store = "[''guild1'' \<mapsto> assignmentOf ''bot-1'' True 50,
                           ''guild2'' \<mapsto> assignmentOf ''bot-2'' True 200000]"
             and k = "''guild3''" and th = None and now = 400000 and now' = 600000]
        releaseInactiveAssignments_sweep
          [where store = "[''guild1'' \<mapsto> assignmentOf ''bot-1'' True 50,
                           ''guild2'' \<mapsto> assignmentOf ''bot-2'' True 200000]"
             and k = "''guild1''" and a = "assignmentOf ''bot-1'' True 50"
             and th = None and now = 400000 and now' = 600000]
        releaseInactiveAssignments_sweep
          [where store = "[''guild1'' \<mapsto> assignmentOf ''bot-1'' True 50,
                           ''guild2'' \<mapsto> assignmentOf ''bot-2'' True 200000]"
             and k = "''guild2''" and a = "assignmentOf ''bot-2'' True 200000"
             and th = None and now = 400000 and now' = 600000]
  by (simp add: assignmentOf_def)

section \<open>Command routing\<close>

lemma set_insertBy: "set (insertBy c x ys) = insert x (set ys)"
  by (induction ys) auto

lemma set_sortBy: "set (sortBy c xs) = set xs"
  by (induction xs) (simp_all add: sortBy_def set_insertBy)

lemma sorted_insertBy:
  assumes tot: "\<And>a b. a \<in> S \<Longrightarrow> b \<in> S \<Longrightarrow> c a b \<le> 0 \<or> c b a \<le> 0"
    and trans: "\<And>a b d. a \<in> S \<Longrightarrow> b \<in> S \<Longrightarrow> d \<in> S \<Longrightarrow> c a b \<le> 0 \<Longrightarrow> c b d \<le> 0 \<Longrightarrow> c a d \<le> 0"
    and "x \<in> S" and "set ys \<subseteq> S" and "sorted_wrt (\<lambda>a b. c a b \<le> 0) ys"
  shows "sorted_wrt (\<lambda>a b. c a b \<le> 0) (insertBy c x ys)"
  using assms(3-)
proof (induction ys)
  case Nil
  then show ?case by simp
next
  case (Cons y ys)
  show ?case
  proof (cases "c x y \<le> 0")
    case True
    have "c x z \<le> 0" if "z \<in> set ys" for z
    proof -
      from Cons.prems that have "c y z \<le> 0" "z \<in> S" "y \<in> S" by auto
      with True \<open>x \<in> S\<close> show ?thesis using trans by blast
    qed
    with True Cons.prems show ?thesis by simp
  next
    case False
    with tot Cons.prems have "c y x \<le> 0" by auto
    moreover from Cons have "sorted_wrt (\<lambda>a b. c a b \<le> 0) (insertBy c x ys)" by simp
    ultimately show ?thesis using False Cons.prems by (auto simp: set_insertBy)
  qed
qed

lemma sorted_sortBy:
  assumes tot: "\<And>a b. a \<in> S \<Longrightarrow> b \<in> S \<Longrightarrow> c a b \<le> 0 \<or> c b a \<le> 0"
    and trans: "\<And>a b d. a \<in> S \<Longrightarrow> b \<in> S \<Longrightarrow> d \<in> S \<Longrightarrow> c a b \<le> 0 \<Longrightarrow> c b d \<le> 0 \<Longrightarrow> c a d \<le> 0"
    and "set xs \<subseteq> S"
  shows "sorted_wrt (\<lambda>a b. c a b \<le> 0) (sortBy c xs)"
  using assms(3)
proof (induction xs)
  case Nil
  then show ?case by (simp add: sortBy_def)
next
  case (Cons x xs)
  then have "sorted_wrt (\<lambda>a b. c a b \<le> 0) (sortBy c xs)" by simp
  moreover from Cons.prems have "x \<in> S" "set (sortBy c xs) \<subseteq> S" by (simp_all add: set_sortBy)
  ultimately have "sorted_wrt (\<lambda>a b. c a b \<le> 0) (insertBy c x (sortBy c xs))"
    using sorted_insertBy [of S c x "sortBy c xs"] tot trans by blast
  then show ?case by (simp add: sortBy_def)
qed

lemma find_sorted_wrt:
  assumes "sorted_wrt R xs" and "find P xs = Some x"
  shows "x \<in> set xs \<and> P x \<and> (\<forall>y \<in> set xs. P y \<longrightarrow> y = x \<or> R x y)"
  using assms
proof (induction xs)
  case Nil
  then show ?case by simp
next
  case (Cons z zs)
  show ?case
  proof (cases "P z")
    case True
    with Cons.prems have "x = z" by simp
    with True Cons.prems(1) show ?thesis by auto
  next
    case False
    with Cons.prems have "find P zs = Some x" "sorted_wrt R zs" by simp_all
    with Cons.IH have "x \<in> set zs \<and> P x \<and> (\<forall>y \<in> set zs. P y \<longrightarrow> y = x \<or> R x y)" by simp
    with False show ?thesis by auto
  qed
qed

lemma find_failover:
  assumes coll: "collation cmp (map fst cluster)"
    and found: "find (\<lambda>(bid, c). P c)
             (sortBy (\<lambda>a b. cmp (fst a) (fst b)) (filter (\<lambda>(bid, c). Q c) cluster))
           = Some (fid, fc)"
  shows "(fid, fc) \<in> set cluster" and "Q fc" and "P fc"
    and "\<And>q c. (q, c) \<in> set cluster \<Longrightarrow> Q c \<Longrightarrow> P c \<Longrightarrow> cmp fid q \<le> 0"
proof -
  let ?c = "\<lambda>a b. cmp (fst a) (fst b)"
  let ?s = "sortBy ?c (filter (\<lambda>(bid, c). Q c) cluster)"
  have ids: "fst a \<in> set (map fst cluster)" if "a \<in> set cluster" for a
    using that by simp
  have tot: "?c a b \<le> 0 \<or> ?c b a \<le> 0" if "a \<in> set cluster" "b \<in> set cluster" for a b
    using coll ids [OF that(1)] ids [OF that(2)] unfolding collation_def by blast
  have trans: "?c a d \<le> 0"
    if "a \<in> set cluster" "b \<in> set cluster" "d \<in> set cluster" "?c a b \<le> 0" "?c b d \<le> 0"
    for a b d
    using coll ids [OF that(1)] ids [OF that(2)] ids [OF that(3)] that(4,5)
    unfolding collation_def by blast
  have "set (filter (\<lambda>(bid, c). Q c) cluster) \<subseteq> set cluster" by auto
  with tot trans have "sorted_wrt (\<lambda>a b. ?c a b \<le> 0) ?s"
    by (rule sorted_sortBy [where S = "set cluster"])
  from this found
  have *: "(fid, fc) \<in> set ?s \<and> (\<lambda>(bid, c). P c) (fid, fc)
      \<and> (\<forall>y \<in> set ?s. (\<lambda>(bid, c). P c) y \<longrightarrow> y = (fid, fc) \<or> ?c (fid, fc) y \<le> 0)"
    by (rule find_sorted_wrt)
  from * show in_cluster: "(fid, fc) \<in> set cluster" and "Q fc" and "P fc"
    by (simp_all add: set_sortBy)
  fix q c assume qc: "(q, c) \<in> set cluster" "Q c" "P c"
  then have "(q, c) \<in> set ?s" by (simp add: set_sortBy)
  with * qc(3) have "(q, c) = (fid, fc) \<or> cmp fid q \<le> 0" by auto
  moreover from tot [OF in_cluster in_cluster] have "cmp fid fid \<le> 0" by simp
  ultimately show "cmp fid q \<le> 0" by auto
qed

lemma find_failover_None:
  assumes "find (\<lambda>(bid, c). P c)
             (sortBy (\<lambda>a b. cmp (fst a) (fst b)) (filter (\<lambda>(bid, c). Q c) cluster))
           = None"
    and "(q, c) \<in> set cluster" and "Q c"
  shows "\<not> P c"
proof -
  from assms(1)
  have "\<forall>y \<in> set (sortBy (\<lambda>a b. cmp (fst a) (fst b)) (filter (\<lambda>(bid, c). Q c) cluster)).
          \<not> (\<lambda>(bid, c). P c) y"
    by (simp only: find_None_iff) blast
  moreover from assms(2,3)
  have "(q, c) \<in> set (sortBy (\<lambda>a b. cmp (fst a) (fst b)) (filter (\<lambda>(bid, c). Q c) cluster))"
    by (simp add: set_sortBy)
  ultimately show ?thesis by blast
qed

lemma isAvailable_availableFor: "isAvailable c g uvc = availableFor c g uvc"
  by (auto simp: isAvailable_def availableFor_def existingChannel_def truthy_def
           split: option.splits)

lemma takeover_first_available:
  assumes wf: "wellFormed (bots orc)"
    and coll: "collation cmp (map fst (bots orc))"
    and busy: "mainBusyElsewhere (bots orc) g uvc"
  shows "fst (takeover cmp orc client g uvc now)
         = (firstAmong cmp availableFor (bots orc) g uvc (clientBotId client)
            \<and> fst (acquireCommandLock (commandLocks orc) g (clientBotId client) now))"
proof -
  let ?F = "find (\<lambda>(bid, botClient). isAvailable botClient g uvc)
              (sortBy (\<lambda>a b. cmp (fst a) (fst b))
                 (filter (\<lambda>(bid, botClient). \<not> isMainBot botClient) (bots orc)))"
  let ?me = "clientBotId client"
  from busy obtain mainId m
    where m: "find (\<lambda>(bid, botClient). isMainBot botClient) (bots orc) = Some (mainId, m)"
      and m1: "existingChannel m g \<noteq> None" and m2: "existingChannel m g \<noteq> uvc"
    by (auto simp: mainBusyElsewhere_def split: option.splits)
  from m1 obtain ch where ch: "existingChannel m g = Some ch" by blast
  from m1 obtain ps where ps: "lavalink m = Some ps"
    by (auto simp: existingChannel_def getPlayer_def split: option.splits)
  from ch m2 have ne: "Some ch \<noteq> uvc" by simp
  have unfold: "takeover cmp orc client g uvc now =
      (case ?F of
         None \<Rightarrow> (False, orc)
       | Some (failoverId, failoverClient) \<Rightarrow>
           if clientBotId failoverClient = ?me then
             (let (gotLock, locks') = acquireCommandLock (commandLocks orc) g ?me now
              in if \<not> gotLock then (False, orc\<lparr>commandLocks := locks'\<rparr>)
                 else (True, orc\<lparr>commandLocks := locks'\<rparr>))
           else (False, orc))"
    unfolding takeover_def Let_def using m ps ch ne by simp
  show ?thesis
  proof (cases ?F)
    case None
    have "\<not> firstAmong cmp availableFor (bots orc) g uvc ?me"
    proof
      assume "firstAmong cmp availableFor (bots orc) g uvc ?me"
      then obtain c where "(?me, c) \<in> set (bots orc)" "\<not> isMainBot c" "isAvailable c g uvc"
        by (auto simp: firstAmong_def isAvailable_availableFor)
      with find_failover_None [OF None] show False by blast
    qed
    moreover from None unfold have "fst (takeover cmp orc client g uvc now) = False" by simp
    ultimately show ?thesis by simp
  next
    case (Some x)
    obtain fid fc where x: "x = (fid, fc)" by (cases x)
    from Some x have F: "?F = Some (fid, fc)" by simp
    note f = find_failover [OF coll F]
    from f(1) wf have id: "clientBotId fc = fid" by (auto simp: wellFormed_def)
    have fa: "firstAmong cmp availableFor (bots orc) g uvc ?me = (fid = ?me)"
    proof
      assume fa: "firstAmong cmp availableFor (bots orc) g uvc ?me"
      then obtain c where c: "(?me, c) \<in> set (bots orc)" "\<not> isMainBot c" "isAvailable c g uvc"
        by (auto simp: firstAmong_def isAvailable_availableFor)
      then have 1: "cmp fid ?me \<le> 0" by (rule f(4))
      from fa f(1) f(2) f(3) have 2: "cmp ?me fid \<le> 0"
        unfolding firstAmong_def isAvailable_availableFor by blast
      from f(1) have "fid \<in> set (map fst (bots orc))" by force
      moreover from c(1) have "?me \<in> set (map fst (bots orc))" by force
      ultimately show "fid = ?me" using coll 1 2 unfolding collation_def by blast
    next
      assume "fid = ?me"
      with f show "firstAmong cmp availableFor (bots orc) g uvc ?me"
        unfolding firstAmong_def isAvailable_availableFor by blast
    qed
    from F unfold id have "fst (takeover cmp orc client g uvc now)
        = (fid = ?me \<and> fst (acquireCommandLock (commandLocks orc) g ?me now))"
      by (simp add: Let_def split: prod.split)
    with fa show ?thesis by simp
  qed
qed

lemma lockCheck_pass:
  assumes "\<not> heldByOther (commandLocks orc) g b (tProbe clk)" and "tCheck clk \<le> tProbe clk"
  shows "\<exists>orc'. lockCheck (Some orc) g b clk = (True, Some orc') \<and> bots orc' = bots orc
            \<and> (\<forall>t. fst (acquireCommandLock (commandLocks orc') g b t))"
  using assms
  by (auto simp: lockCheck_def heldByOther_def hasCommandLock_def acquireCommandLock_def
        releaseCommandLock_def Let_def split: option.splits)

lemma lockCheck_fail:
  assumes "heldByOther (commandLocks orc) g b (tProbe clk)" and "tCheck clk \<le> tProbe clk"
  shows "lockCheck (Some orc) g b clk = (False, Some orc)"
  using assms
  by (auto simp: lockCheck_def heldByOther_def hasCommandLock_def acquireCommandLock_def
        releaseCommandLock_def Let_def split: option.splits)

lemma failover_reaches_takeover:
  assumes wf: "wellFormed (bots orc)"
    and coll: "collation cmp (map fst (bots orc))"
    and busy: "mainBusyElsewhere (bots orc) g uvc"
    and nomain: "\<not> isMainBot client"
    and uvc: "truthy uvc"
    and lock: "\<not> heldByOther (commandLocks orc) g (clientBotId client) (tProbe clk)"
    and mono: "tCheck clk \<le> tProbe clk"
    and noplayer: "existingChannel client g = None"
    and noassign: "\<not> assignedTo store g (clientBotId client)"
  shows "fst (shouldHandleCommand cmp (Some orc) store client g True uvc clk)
         = firstAmong cmp availableFor (bots orc) g uvc (clientBotId client)"
proof -
  from lockCheck_pass [OF lock mono] obtain orc' where
    lc: "lockCheck (Some orc) g (clientBotId client) clk = (True, Some orc')"
    and b: "bots orc' = bots orc"
    and a: "\<And>t. fst (acquireCommandLock (commandLocks orc') g (clientBotId client) t)"
    by blast
  from noassign have na: "\<not> (case store g of None \<Rightarrow> False
       | Some assignment \<Rightarrow> isActive assignment \<and> assignedBotId assignment = clientBotId client)"
    by (simp add: assignedTo_def)
  have "fst (shouldHandleCommand cmp (Some orc) store client g True uvc clk)
        = fst (takeover cmp orc' client g uvc (tAcquire clk))"
    using nomain uvc noplayer na lc
    by (simp add: shouldHandleCommand_def failoverLogic_def split: prod.splits)
  also have "\<dots> = (firstAmong cmp availableFor (bots orc') g uvc (clientBotId client)
            \<and> fst (acquireCommandLock (commandLocks orc') g (clientBotId client) (tAcquire clk)))"
    using wf coll busy b by (simp add: takeover_first_available)
  finally show ?thesis using a b by simp
qed

lemma failover_locked_out:
  assumes "\<not> isMainBot client"
    and "heldByOther (commandLocks orc) g (clientBotId client) (tProbe clk)"
    and "tCheck clk \<le> tProbe clk"
  shows "shouldHandleCommand cmp (Some orc) store client g m uvc clk = (False, Some orc)"
  using assms lockCheck_fail [OF assms(2,3)]
  by (simp add: shouldHandleCommand_def failoverLogic_def)

lemma main_decision:
  assumes "isMainBot client"
  shows "fst (shouldHandleCommand cmp orch store client g m uvc clk)
         = (\<not> (m \<and> truthy uvc \<and> existingChannel client g \<noteq> None \<and> existingChannel client g \<noteq> uvc)
            \<and> \<not> (m \<and> assignedElsewhere store g (clientBotId client)))"
  using assms
  by (auto simp: shouldHandleCommand_def mainBotLogic_def assignedElsewhere_def split: option.splits)


lemma main_final_step:
  assumes "isMainBot client"
    and "\<not> (truthy uvc \<and> existingChannel client g \<noteq> None \<and> existingChannel client g \<noteq> uvc)"
    and "\<not> assignedElsewhere store g (clientBotId client)"
    and "\<not> fst (acquireCommandLock (commandLocks orc) g (clientBotId client) (tAcquire clk))"
  shows "shouldHandleCommand cmp (Some orc) store client g True uvc clk = (True, Some orc)"
proof -
  from assms(4) have "snd (acquireCommandLock (commandLocks orc) g (clientBotId client) (tAcquire clk))
      = commandLocks orc"
    by (auto simp: acquireCommandLock_def split: option.splits if_splits)
  then have "acquireIfPresent (Some orc) g (clientBotId client) (tAcquire clk) = Some orc"
    by (simp add: acquireIfPresent_def)
  moreover from assms(3) have "\<not> (case store g of None \<Rightarrow> False
      | Some assignment \<Rightarrow> isActive assignment \<and> assignedBotId assignment \<noteq> clientBotId client)"
    by (simp add: assignedElsewhere_def)
  ultimately show ?thesis using assms(1,2)
    by (auto simp: shouldHandleCommand_def mainBotLogic_def)
qed

text \<open>
  C3 (as amended). A failover bot evaluating a music command, with the main bot playing
  for the guild in a voice channel other than the user's, in a cluster whose identifiers
  the comparison \<^verbatim>\<open>localeCompare\<close> orders linearly. A failover bot is available for the
  guild when it has no player there, or its player is connected to no voice channel, or
  its player is in the user's channel. At the takeover step the bot handles the command
  exactly when it is the first available failover bot in ascending order of identifiers
  and its lock acquisition succeeds. For the whole evaluation: when no other peer holds a
  fresh lock, the bot has no player in a voice channel of the guild and the guild is not
  actively assigned to it, the bot handles exactly when it is that first available bot;
  when another peer holds a fresh lock it defers and changes nothing.
\<close>

theorem failover_first_available:
  assumes "wellFormed (bots orc)" and "collation localeCompare (map fst (bots orc))"
    and "mainBusyElsewhere (bots orc) g uvc"
    and "\<not> isMainBot client" and "truthy uvc"
  shows "fst (takeover localeCompare orc client g uvc now)
           = (firstAmong localeCompare availableFor (bots orc) g uvc (clientBotId client)
              \<and> fst (acquireCommandLock (commandLocks orc) g (clientBotId client) now))
       \<and> (\<not> heldByOther (commandLocks orc) g (clientBotId client) (tProbe clk)
            \<and> tCheck clk \<le> tProbe clk
            \<and> existingChannel client g = None
            \<and> \<not> assignedTo store g (clientBotId client) \<longrightarrow>
          fst (shouldHandleCommand localeCompare (Some orc) store client g True uvc clk)
            = firstAmong localeCompare availableFor (bots orc) g uvc (clientBotId client))
       \<and> (heldByOther (commandLocks orc) g (clientBotId client) (tProbe clk)
            \<and> tCheck clk \<le> tProbe clk \<longrightarrow>
          shouldHandleCommand localeCompare (Some orc) store client g True uvc clk
            = (False, Some orc))"
proof (intro conjI impI)
  show "fst (takeover localeCompare orc client g uvc now)
           = (firstAmong localeCompare availableFor (bots orc) g uvc (clientBotId client)
              \<and> fst (acquireCommandLock (commandLocks orc) g (clientBotId client) now))"
    using assms(1,2,3) by (rule takeover_first_available)
next
  assume "\<not> heldByOther (commandLocks orc) g (clientBotId client) (tProbe clk)
            \<and> tCheck clk \<le> tProbe clk
            \<and> existingChannel client g = None
            \<and> \<not> assignedTo store g (clientBotId client)"
  then show "fst (shouldHandleCommand localeCompare (Some orc) store client g True uvc clk)
            = firstAmong localeCompare availableFor (bots orc) g uvc (clientBotId client)"
    using failover_reaches_takeover [OF assms] by simp
next
  assume "heldByOther (commandLocks orc) g (clientBotId client) (tProbe clk)
            \<and> tCheck clk \<le> tProbe clk"
  then show "shouldHandleCommand localeCompare (Some orc) store client g True uvc clk
             = (False, Some orc)"
    using failover_locked_out [OF assms(4)] by simp
qed

lemma collation_examples:
  "collation byCodePoint [''bot-1'', ''bot-2'', ''bot-3'']"
  by (simp add: collation_def byCodePoint_def)

theorem failover_first_available_witness:
  "wellFormed (bots orcFree) \<and> collation byCodePoint (map fst (bots orcFree))
   \<and> mainBusyElsewhere (bots orcFree) ''guild1'' (Some ''C2'')
   \<and> \<not> isMainBot idle2 \<and> \<not> isMainBot idle3 \<and> truthy (Some ''C2'')
   \<and> firstAmong byCodePoint availableFor (bots orcFree) ''guild1'' (Some ''C2'') ''bot-2''
   \<and> \<not> firstAmong byCodePoint availableFor (bots orcFree) ''guild1'' (Some ''C2'') ''bot-3''
   \<and> fst (shouldHandleCommand byCodePoint (Some orcFree) [''guild1'' \<mapsto> assignmentOf ''bot-1'' True 0]
             idle2 ''guild1'' True (Some ''C2'') \<lparr>tCheck = 100, tProbe = 100, tAcquire = 101\<rparr>)
   \<and> \<not> fst (shouldHandleCommand byCodePoint (Some orcFree) [''guild1'' \<mapsto> assignmentOf ''bot-1'' True 0]
             idle3 ''guild1'' True (Some ''C2'') \<lparr>tCheck = 100, tProbe = 100, tAcquire = 101\<rparr>)
   \<and> \<not> fst (shouldHandleCommand byCodePoint (Some orcFree) [''guild1'' \<mapsto> assignmentOf ''bot-1'' True 0]
             mainBusy ''guild1'' True (Some ''C2'') \<lparr>tCheck = 100, tProbe = 100, tAcquire = 101\<rparr>)
   \<and> shouldHandleCommand byCodePoint (Some orcFree) [''guild1'' \<mapsto> assignmentOf ''bot-1'' True 0]
        idle2 ''guild1'' True (Some ''C2'') \<lparr>tCheck = 100, tProbe = 100, tAcquire = 101\<rparr>
       = (True, Some orcLocked)
   \<and> heldByOther (commandLocks orcLocked) ''guild1'' ''bot-3'' 102
   \<and> shouldHandleCommand byCodePoint (Some orcLocked) [''guild1'' \<mapsto> assignmentOf ''bot-1'' True 0]
        idle3 ''guild1'' True (Some ''C2'') \<lparr>tCheck = 102, tProbe = 102, tAcquire = 103\<rparr>
       = (False, Some orcLocked)"
proof -
  let ?store = "[''guild1'' \<mapsto> assignmentOf ''bot-1'' True 0]"
  let ?clk = "\<lparr>tCheck = 100, tProbe = 100, tAcquire = 101\<rparr>"
  let ?clk' = "\<lparr>tCheck = 102, tProbe = 102, tAcquire = 103\<rparr>"
  have wf: "wellFormed (bots orcFree)"
    by (simp add: wellFormed_def orcFree_def cluster3_def mainBusy_def idle2_def idle3_def)
  have coll: "collation byCodePoint (map fst (bots orcFree))"
    using collation_examples by (simp add: orcFree_def cluster3_def)
  have busy: "mainBusyElsewhere (bots orcFree) ''guild1'' (Some ''C2'')"
    by (simp add: mainBusyElsewhere_def orcFree_def cluster3_def mainBusy_def
          existingChannel_def getPlayer_def truthy_def)
  have wf': "wellFormed (bots orcLocked)"
    and coll': "collation byCodePoint (map fst (bots orcLocked))"
    and busy': "mainBusyElsewhere (bots orcLocked) ''guild1'' (Some ''C2'')"
    using wf coll busy by (simp_all add: orcFree_def orcLocked_def)
  have nm: "\<not> isMainBot idle2" "\<not> isMainBot idle3" by (simp_all add: idle2_def idle3_def)
  have tr: "truthy (Some ''C2'')" by (simp add: truthy_def)
  have first2: "firstAmong byCodePoint availableFor (bots orcFree) ''guild1'' (Some ''C2'') ''bot-2''"
    by (simp add: firstAmong_def availableFor_def byCodePoint_def orcFree_def cluster3_def
          mainBusy_def idle2_def idle3_def getPlayer_def)
  have first3: "\<not> firstAmong byCodePoint availableFor (bots orcFree) ''guild1'' (Some ''C2'') ''bot-3''"
    by (simp add: firstAmong_def availableFor_def byCodePoint_def orcFree_def cluster3_def
          mainBusy_def idle2_def idle3_def getPlayer_def)
  have reach2: "\<not> heldByOther (commandLocks orcFree) ''guild1'' (clientBotId idle2) (tProbe ?clk)
      \<and> tCheck ?clk \<le> tProbe ?clk \<and> existingChannel idle2 ''guild1'' = None
      \<and> \<not> assignedTo ?store ''guild1'' (clientBotId idle2)"
    by (simp add: heldByOther_def orcFree_def idle2_def existingChannel_def getPlayer_def
          assignedTo_def assignmentOf_def)
  have reach3: "\<not> heldByOther (commandLocks orcFree) ''guild1'' (clientBotId idle3) (tProbe ?clk)
      \<and> tCheck ?clk \<le> tProbe ?clk \<and> existingChannel idle3 ''guild1'' = None
      \<and> \<not> assignedTo ?store ''guild1'' (clientBotId idle3)"
    by (simp add: heldByOther_def orcFree_def idle3_def existingChannel_def getPlayer_def
          assignedTo_def assignmentOf_def)
  have held: "heldByOther (commandLocks orcLocked) ''guild1'' ''bot-3'' 102"
    by (simp add: heldByOther_def orcLocked_def LOCK_TIMEOUT_def)
  have id2: "clientBotId idle2 = ''bot-2''" and id3: "clientBotId idle3 = ''bot-3''"
    by (simp_all add: idle2_def idle3_def)
  have main: "\<not> fst (shouldHandleCommand byCodePoint (Some orcFree) ?store mainBusy ''guild1'' True
                       (Some ''C2'') ?clk)"
    by (simp add: shouldHandleCommand_def mainBotLogic_def mainBusy_def existingChannel_def
          getPlayer_def truthy_def)
  have after: "shouldHandleCommand byCodePoint (Some orcFree) ?store idle2 ''guild1'' True
                 (Some ''C2'') ?clk = (True, Some orcLocked)"
    by (simp add: shouldHandleCommand_def failoverLogic_def lockCheck_def hasCommandLock_def
          acquireCommandLock_def releaseCommandLock_def takeover_def sortBy_def byCodePoint_def
          isAvailable_def assignmentOf_def orcFree_def orcLocked_def cluster3_def mainBusy_def
          idle2_def idle3_def existingChannel_def getPlayer_def truthy_def)
  note p2 = failover_first_available
              [where orc = orcFree and client = idle2 and g = "''guild1''" and uvc = "Some ''C2''"
                 and store = ?store and clk = ?clk, OF wf coll busy nm(1) tr]
  note p3 = failover_first_available
              [where orc = orcFree and client = idle3 and g = "''guild1''" and uvc = "Some ''C2''"
                 and store = ?store and clk = ?clk, OF wf coll busy nm(2) tr]
  note p3' = failover_first_available
              [where orc = orcLocked and client = idle3 and g = "''guild1''" and uvc = "Some ''C2''"
                 and store = ?store and clk = ?clk', OF wf' coll' busy' nm(2) tr]
  from p2 reach2 first2 id2
  have h2: "fst (shouldHandleCommand byCodePoint (Some orcFree) ?store idle2 ''guild1'' True
                   (Some ''C2'') ?clk)"
    by simp
  from p3 reach3 first3 id3
  have h3: "\<not> fst (shouldHandleCommand byCodePoint (Some orcFree) ?store idle3 ''guild1'' True
                     (Some ''C2'') ?clk)"
    by simp
  from p3' held id3
  have h3': "shouldHandleCommand byCodePoint (Some orcLocked) ?store idle3 ''guild1'' True
               (Some ''C2'') ?clk' = (False, Some orcLocked)"
    by simp
  from wf coll busy nm tr first2 first3 h2 h3 main after held h3' show ?thesis by blast
qed

text \<open>
  C3 as stated fails when a failover bot has a player that is connected to no voice
  channel. With the main bot busy in \<^verbatim>\<open>C1\<close>, the user in \<^verbatim>\<open>C2\<close>, bot-2 holding such a
  player and bot-3 idle, bot-2 is not available in the words of the claim (it has a
  player, and not in the user's channel), so bot-3 is the first available bot and its
  lock acquisition would succeed; yet bot-3 defers and bot-2 handles.
\<close>

theorem failover_available_as_stated_counterexample:
  "wellFormed (bots orcParked) \<and> collation byCodePoint (map fst (bots orcParked))
   \<and> mainBusyElsewhere (bots orcParked) ''guild1'' (Some ''C2'')
   \<and> \<not> isMainBot idle3 \<and> \<not> isMainBot parked2 \<and> truthy (Some ''C2'')
   \<and> getPlayer parked2 ''guild1'' = Some \<lparr>voiceChannelId = None\<rparr>
   \<and> \<not> availableAsStated parked2 ''guild1'' (Some ''C2'')
   \<and> firstAmong byCodePoint availableAsStated (bots orcParked) ''guild1'' (Some ''C2'') ''bot-3''
   \<and> fst (acquireCommandLock (commandLocks orcParked) ''guild1'' ''bot-3'' 101)
   \<and> \<not> fst (takeover byCodePoint orcParked idle3 ''guild1'' (Some ''C2'') 101)
   \<and> \<not> fst (shouldHandleCommand byCodePoint (Some orcParked) [''guild1'' \<mapsto> assignmentOf ''bot-1'' True 0]
              idle3 ''guild1'' True (Some ''C2'') \<lparr>tCheck = 100, tProbe = 100, tAcquire = 101\<rparr>)
   \<and> \<not> firstAmong byCodePoint availableAsStated (bots orcParked) ''guild1'' (Some ''C2'') ''bot-2''
   \<and> fst (takeover byCodePoint orcParked parked2 ''guild1'' (Some ''C2'') 101)
   \<and> fst (shouldHandleCommand byCodePoint (Some orcParked) [''guild1'' \<mapsto> assignmentOf ''bot-1'' True 0]
              parked2 ''guild1'' True (Some ''C2'') \<lparr>tCheck = 100, tProbe = 100, tAcquire = 101\<rparr>)"
  by (simp add: wellFormed_def collation_def byCodePoint_def mainBusyElsewhere_def firstAmong_def
        availableAsStated_def shouldHandleCommand_def failoverLogic_def lockCheck_def
        hasCommandLock_def acquireCommandLock_def releaseCommandLock_def takeover_def sortBy_def
        isAvailable_def assignmentOf_def orcParked_def mainBusy_def parked2_def idle3_def
        existingChannel_def getPlayer_def truthy_def)

text \<open>
  C9. The main bot's decision does not depend on the lock table: the returned boolean is
  the same for any two orchestrator states and clock readings. When the main bot is not
  playing in another voice channel and the guild is not actively assigned to another
  bot, it returns true for a music command although its lock acquisition is refused, and
  the lock table stays as it was.
\<close>

theorem main_bot_ignores_locks:
  assumes "isMainBot client"
  shows "fst (shouldHandleCommand localeCompare orch store client g m uvc clk)
           = fst (shouldHandleCommand localeCompare' orch' store client g m uvc clk')
       \<and> (\<not> (truthy uvc \<and> existingChannel client g \<noteq> None \<and> existingChannel client g \<noteq> uvc)
            \<and> \<not> assignedElsewhere store g (clientBotId client)
            \<and> \<not> fst (acquireCommandLock (commandLocks orc) g (clientBotId client) (tAcquire clk)) \<longrightarrow>
          shouldHandleCommand localeCompare (Some orc) store client g True uvc clk
            = (True, Some orc))"
proof (intro conjI impI)
  show "fst (shouldHandleCommand localeCompare orch store client g m uvc clk)
           = fst (shouldHandleCommand localeCompare' orch' store client g m uvc clk')"
    by (simp only: main_decision [OF assms])
next
  assume "\<not> (truthy uvc \<and> existingChannel client g \<noteq> None \<and> existingChannel client g \<noteq> uvc)
            \<and> \<not> assignedElsewhere store g (clientBotId client)
            \<and> \<not> fst (acquireCommandLock (commandLocks orc) g (clientBotId client) (tAcquire clk))"
  then show "shouldHandleCommand localeCompare (Some orc) store client g True uvc clk
             = (True, Some orc)"
    using main_final_step [OF assms] by simp
qed

theorem main_bot_ignores_locks_witness:
  "isMainBot mainBusy
   \<and> \<not> (truthy (Some ''C1'') \<and> existingChannel mainBusy ''guild1'' \<noteq> None
          \<and> existingChannel mainBusy ''guild1'' \<noteq> Some ''C1'')
   \<and> \<not> assignedElsewhere [''guild1'' \<mapsto> assignmentOf ''bot-1'' True 0] ''guild1'' (clientBotId mainBusy)
   \<and> \<not> fst (acquireCommandLock (commandLocks orcLocked) ''guild1'' (clientBotId mainBusy) 105)
   \<and> shouldHandleCommand byCodePoint (Some orcLocked) [''guild1'' \<mapsto> assignmentOf ''bot-1'' True 0]
        mainBusy ''guild1'' True (Some ''C1'') \<lparr>tCheck = 104, tProbe = 104, tAcquire = 105\<rparr>
       = (True, Some orcLocked)
   \<and> fst (shouldHandleCommand byCodePoint (Some orcLocked) [''guild1'' \<mapsto> assignmentOf ''bot-1'' True 0]
        mainBusy ''guild1'' True (Some ''C1'') \<lparr>tCheck = 104, tProbe = 104, tAcquire = 105\<rparr>)
       = fst (shouldHandleCommand byCodePoint (Some orcFree) [''guild1'' \<mapsto> assignmentOf ''bot-1'' True 0]
        mainBusy ''guild1'' True (Some ''C1'') \<lparr>tCheck = 104, tProbe = 104, tAcquire = 105\<rparr>)"
proof -
  let ?store = "[''guild1'' \<mapsto> assignmentOf ''bot-1'' True 0]"
  let ?clk = "\<lparr>tCheck = 104, tProbe = 104, tAcquire = 105\<rparr>"
  have main: "isMainBot mainBusy" by (simp add: mainBusy_def)
  have same: "\<not> (truthy (Some ''C1'') \<and> existingChannel mainBusy ''guild1'' \<noteq> None
          \<and> existingChannel mainBusy ''guild1'' \<noteq> Some ''C1'')"
    by (simp add: mainBusy_def existingChannel_def getPlayer_def truthy_def)
  have own: "\<not> assignedElsewhere ?store ''guild1'' (clientBotId mainBusy)"
    by (simp add: assignedElsewhere_def assignmentOf_def mainBusy_def)
  have refused: "\<not> fst (acquireCommandLock (commandLocks orcLocked) ''guild1'' (clientBotId mainBusy)
                          (tAcquire ?clk))"
    by (simp add: acquireCommandLock_def orcLocked_def mainBusy_def LOCK_TIMEOUT_def)
  note t = main_bot_ignores_locks
             [where client = mainBusy and orc = orcLocked and g = "''guild1''" and uvc = "Some ''C1''"
                and store = ?store and clk = ?clk and clk' = ?clk and m = True
                and orch = "Some orcLocked" and orch' = "Some orcFree"
                and localeCompare = byCodePoint and localeCompare' = byCodePoint, OF main]
  from t same own refused
  have "shouldHandleCommand byCodePoint (Some orcLocked) ?store mainBusy ''guild1'' True (Some ''C1'') ?clk
        = (True, Some orcLocked)"
    by blast
  moreover from t
  have "fst (shouldHandleCommand byCodePoint (Some orcLocked) ?store mainBusy ''guild1'' True (Some ''C1'') ?clk)
        = fst (shouldHandleCommand byCodePoint (Some orcFree) ?store mainBusy ''guild1'' True (Some ''C1'') ?clk)"
    by blast
  ultimately show ?thesis using main same own refused by simp
qed

end
